theory Spec2Isabelle
  imports Complex_Main
begin

section \<open>JavaScript values used by the domain model\<close>

text \<open>
  A JavaScript \<^verbatim>\<open>number\<close> is either \<^verbatim>\<open>NaN\<close>, one of the two infinities or a finite
  value. Finite values are modelled as exact rationals: the rounding of IEEE-754
  arithmetic and the sign of zero are not represented. The comparisons
  (\<^verbatim>\<open><\<close>, \<^verbatim>\<open><=\<close>, \<^verbatim>\<open>===\<close>) follow ECMAScript: every comparison with \<^verbatim>\<open>NaN\<close> is false.
\<close>

datatype jsnum = NaN | NInf | Fin rat | PInf

fun js_lt :: "jsnum \<Rightarrow> jsnum \<Rightarrow> bool" where
  "js_lt NaN _ = False"
| "js_lt _ NaN = False"
| "js_lt NInf NInf = False"
| "js_lt NInf _ = True"
| "js_lt (Fin a) NInf = False"
| "js_lt (Fin a) (Fin b) = (a < b)"
| "js_lt (Fin a) PInf = True"
| "js_lt PInf _ = False"

definition js_gt :: "jsnum \<Rightarrow> jsnum \<Rightarrow> bool" where
  "js_gt a b = js_lt b a"

definition js_le :: "jsnum \<Rightarrow> jsnum \<Rightarrow> bool" where
  "js_le a b = (a \<noteq> NaN \<and> b \<noteq> NaN \<and> \<not> js_lt b a)"

definition js_ge :: "jsnum \<Rightarrow> jsnum \<Rightarrow> bool" where
  "js_ge a b = js_le b a"

definition js_eq :: "jsnum \<Rightarrow> jsnum \<Rightarrow> bool" where
  "js_eq a b = (a \<noteq> NaN \<and> a = b)"

definition isNaN :: "jsnum \<Rightarrow> bool" where
  "isNaN a = (a = NaN)"

fun js_neg :: "jsnum \<Rightarrow> jsnum" where
  "js_neg NaN = NaN"
| "js_neg NInf = PInf"
| "js_neg (Fin a) = Fin (- a)"
| "js_neg PInf = NInf"

fun js_add :: "jsnum \<Rightarrow> jsnum \<Rightarrow> jsnum" where
  "js_add NaN _ = NaN"
| "js_add _ NaN = NaN"
| "js_add (Fin a) (Fin b) = Fin (a + b)"
| "js_add (Fin a) b = b"
| "js_add a (Fin b) = a"
| "js_add a b = (if a = b then a else NaN)"

definition js_sub :: "jsnum \<Rightarrow> jsnum \<Rightarrow> jsnum" where
  "js_sub a b = js_add a (js_neg b)"

text \<open>The sign of a number: \<open>1\<close>, \<open>-1\<close>, or \<open>0\<close> for zero and for \<^verbatim>\<open>NaN\<close>.\<close>

fun js_sign :: "jsnum \<Rightarrow> int" where
  "js_sign NaN = 0"
| "js_sign NInf = - 1"
| "js_sign (Fin a) = (if a < 0 then - 1 else if a = 0 then 0 else 1)"
| "js_sign PInf = 1"

fun js_mul :: "jsnum \<Rightarrow> jsnum \<Rightarrow> jsnum" where
  "js_mul NaN _ = NaN"
| "js_mul _ NaN = NaN"
| "js_mul (Fin a) (Fin b) = Fin (a * b)"
| "js_mul a b =
     (let s = js_sign a * js_sign b
      in if s = 0 then NaN else if s < 0 then NInf else PInf)"

fun js_div :: "jsnum \<Rightarrow> jsnum \<Rightarrow> jsnum" where
  "js_div NaN _ = NaN"
| "js_div _ NaN = NaN"
| "js_div (Fin a) (Fin b) =
     (if b = 0 then (if a = 0 then NaN else if a < 0 then NInf else PInf)
      else Fin (a / b))"
| "js_div (Fin a) b = Fin 0"
| "js_div a (Fin b) =
     (if js_sign a * (if b < 0 then - 1 else 1) < 0 then NInf else PInf)"
| "js_div a b = NaN"

text \<open>A thrown \<^verbatim>\<open>Error\<close> is a value carrying its message.\<close>

datatype error = Error string

section \<open>Percentage (src/domain/value-objects/Percentage.ts)\<close>

datatype Percentage = Percentage jsnum

fun Percentage_getValue :: "Percentage \<Rightarrow> jsnum" where
  "Percentage_getValue (Percentage v) = v"

text \<open>
  \<^verbatim>\<open>validatePercentage\<close>: the \<^verbatim>\<open>typeof\<close> test is decided by the parameter's type;
  the three remaining tests are taken in the order of the source.
\<close>

definition validatePercentage :: "jsnum \<Rightarrow> error + unit" where
  "validatePercentage percentage =
     (if isNaN percentage then Inl (Error ''Percentage cannot be NaN'')
      else if js_lt percentage (Fin 0) then Inl (Error ''Percentage cannot be negative'')
      else if js_gt percentage (Fin 100) then Inl (Error ''Percentage cannot exceed 100'')
      else Inr ())"

definition new_Percentage :: "jsnum \<Rightarrow> error + Percentage" where
  "new_Percentage percentage =
     (case validatePercentage percentage of
        Inl e \<Rightarrow> Inl e
      | Inr _ \<Rightarrow> Inr (Percentage percentage))"

definition Percentage_fromMarks :: "jsnum \<Rightarrow> jsnum \<Rightarrow> error + Percentage" where
  "Percentage_fromMarks obtained tot =
     (if js_le tot (Fin 0) then Inl (Error ''Total marks must be greater than zero'')
      else new_Percentage (js_mul (js_div obtained tot) (Fin 100)))"

definition Percentage_fromFraction :: "jsnum \<Rightarrow> jsnum \<Rightarrow> error + Percentage" where
  "Percentage_fromFraction numerator denominator =
     (if js_le denominator (Fin 0) then Inl (Error ''Denominator must be greater than zero'')
      else new_Percentage (js_mul (js_div numerator denominator) (Fin 100)))"

definition isl_error :: "error + 'a \<Rightarrow> bool" where
  "isl_error r = (case r of Inl _ \<Rightarrow> True | Inr _ \<Rightarrow> False)"

section \<open>Strings\<close>

text \<open>
  A \<open>char\<close> stands for a UTF-16 code unit below 256 (the Latin-1 range), so a
  \<open>string\<close> is a JavaScript string over that range. \<^verbatim>\<open>trim\<close> removes the white
  space and line terminators of ECMAScript that lie in the range; \<^verbatim>\<open>toLowerCase\<close>
  maps A-Z and the accented capitals U+00C0-U+00DE (without the multiplication sign).
\<close>

definition isWhiteSpace :: "char \<Rightarrow> bool" where
  "isWhiteSpace c = (let n = (of_char c :: nat) in (9 \<le> n \<and> n \<le> 13) \<or> n = 32 \<or> n = 160)"

definition trimStart :: "string \<Rightarrow> string" where
  "trimStart s = dropWhile isWhiteSpace s"

definition trim :: "string \<Rightarrow> string" where
  "trim s = rev (dropWhile isWhiteSpace (rev (dropWhile isWhiteSpace s)))"

definition lowerChar :: "char \<Rightarrow> char" where
  "lowerChar c =
     (let n = (of_char c :: nat)
      in if (65 \<le> n \<and> n \<le> 90) \<or> (192 \<le> n \<and> n \<le> 222 \<and> n \<noteq> 215)
         then char_of (n + 32) else c)"

definition toLowerCase :: "string \<Rightarrow> string" where
  "toLowerCase s = map lowerChar s"

subsection \<open>parseFloat\<close>

text \<open>
  \<^verbatim>\<open>parseFloat\<close> skips leading white space and reads the longest prefix that is a
  \<^verbatim>\<open>StrDecimalLiteral\<close>: an optional sign, then \<^verbatim>\<open>Infinity\<close> or decimal digits with an
  optional fraction and an optional exponent. The value is the exact rational that
  the literal denotes.
\<close>

definition isDigit :: "char \<Rightarrow> bool" where
  "isDigit c = (48 \<le> (of_char c :: nat) \<and> (of_char c :: nat) \<le> 57)"

definition digitsToInt :: "string \<Rightarrow> int" where
  "digitsToInt ds = foldl (\<lambda>acc c. 10 * acc + ((of_char c :: int) - 48)) 0 ds"

definition pow10 :: "int \<Rightarrow> rat" where
  "pow10 e = (if 0 \<le> e then 10 ^ nat e else 1 / 10 ^ nat (- e))"

fun exponentPart :: "string \<Rightarrow> (int \<times> string) option" where
  "exponentPart [] = None"
| "exponentPart (c # t) =
     (if c = CHR ''e'' \<or> c = CHR ''E'' then
        (let (sgn, u) =
               (case t of
                  [] \<Rightarrow> (1, t)
                | s # u' \<Rightarrow> if s = CHR ''+'' then (1, u')
                            else if s = CHR ''-'' then (- 1, u') else (1, t));
             ds = takeWhile isDigit u
         in if ds = [] then None
            else Some (sgn * digitsToInt ds, dropWhile isDigit u))
      else None)"

definition strUnsignedDecimalLiteral :: "string \<Rightarrow> (jsnum \<times> string) option" where
  "strUnsignedDecimalLiteral s =
     (if take 8 s = ''Infinity'' then Some (PInf, drop 8 s)
      else
        (let ip = takeWhile isDigit s;
             r1 = dropWhile isDigit s;
             (fp, r2) =
               (case r1 of
                  [] \<Rightarrow> ([], r1)
                | c # t \<Rightarrow> if c = CHR ''.'' \<and> (ip \<noteq> [] \<or> takeWhile isDigit t \<noteq> [])
                           then (takeWhile isDigit t, dropWhile isDigit t) else ([], r1))
         in if ip = [] \<and> fp = [] then None
            else
              (let (e, r3) = (case exponentPart r2 of None \<Rightarrow> (0, r2) | Some er \<Rightarrow> er)
               in Some (Fin (of_int (digitsToInt (ip @ fp)) * pow10 (e - int (length fp))), r3))))"

definition strDecimalLiteral :: "string \<Rightarrow> (jsnum \<times> string) option" where
  "strDecimalLiteral s =
     (case s of
        [] \<Rightarrow> None
      | c # t \<Rightarrow>
          if c = CHR ''+'' then strUnsignedDecimalLiteral t
          else if c = CHR ''-'' then
            (case strUnsignedDecimalLiteral t of
               None \<Rightarrow> None
             | Some (v, r) \<Rightarrow> Some (js_neg v, r))
          else strUnsignedDecimalLiteral s)"

definition parseFloat :: "string \<Rightarrow> jsnum" where
  "parseFloat s =
     (case strDecimalLiteral (trimStart s) of None \<Rightarrow> NaN | Some (v, r) \<Rightarrow> v)"

section \<open>Marks (src/domain/value-objects/Marks.ts)\<close>

datatype Marks = Marks jsnum

fun Marks_getValue :: "Marks \<Rightarrow> jsnum" where
  "Marks_getValue (Marks v) = v"

definition validateMarks :: "jsnum \<Rightarrow> bool \<Rightarrow> error + unit" where
  "validateMarks marks isTotal =
     (if isNaN marks then Inl (Error ''Marks cannot be NaN'')
      else if js_lt marks (Fin 0) then Inl (Error ''Marks cannot be negative'')
      else if \<not> isTotal \<and> js_gt marks (Fin 100) then Inl (Error ''Marks cannot exceed 100'')
      else Inr ())"

definition new_Marks :: "jsnum \<Rightarrow> bool \<Rightarrow> error + Marks" where
  "new_Marks marks isTotal =
     (case validateMarks marks isTotal of
        Inl e \<Rightarrow> Inl e
      | Inr _ \<Rightarrow> Inr (Marks marks))"

definition Marks_fromString :: "string \<Rightarrow> error + Marks" where
  "Marks_fromString marksString =
     (let trimmed = trim marksString
      in if trimmed = [] \<or> toLowerCase trimmed = ''absent'' \<or> toLowerCase trimmed = ''ab''
         then new_Marks (Fin 0) False
         else
           (let parsed = parseFloat trimmed
            in if isNaN parsed then Inl (Error (''Invalid marks format: '' @ marksString))
               else new_Marks parsed False))"

definition Marks_total :: "jsnum \<Rightarrow> error + Marks" where
  "Marks_total marks = new_Marks marks True"

section \<open>Student and Subject (src/domain/entities)\<close>

datatype Student = Student string string "string option" "string option"

fun Student_getName :: "Student \<Rightarrow> string" where
  "Student_getName (Student n r c s) = n"

fun Student_getRollNumber :: "Student \<Rightarrow> string" where
  "Student_getRollNumber (Student n r c s) = r"

definition validateStudent :: "string \<Rightarrow> string \<Rightarrow> error + unit" where
  "validateStudent name rollNumber =
     (if length (trim name) = 0 then Inl (Error ''Student name must be a non-empty string'')
      else if length (trim name) < 2
        then Inl (Error ''Student name must be at least 2 characters long'')
      else if length (trim rollNumber) = 0
        then Inl (Error ''Roll number must be a non-empty string'')
      else Inr ())"

definition new_Student ::
  "string \<Rightarrow> string \<Rightarrow> string option \<Rightarrow> string option \<Rightarrow> error + Student" where
  "new_Student name rollNumber className section =
     (case validateStudent name rollNumber of
        Inl e \<Rightarrow> Inl e
      | Inr _ \<Rightarrow>
          Inr (Student (trim name) (trim rollNumber) (map_option trim className)
                 (map_option trim section)))"

datatype Subject = Subject string jsnum bool

fun Subject_getName :: "Subject \<Rightarrow> string" where
  "Subject_getName (Subject n m opt) = n"

fun Subject_getMaxMarks :: "Subject \<Rightarrow> jsnum" where
  "Subject_getMaxMarks (Subject n m opt) = m"

definition validateSubject :: "string \<Rightarrow> jsnum \<Rightarrow> error + unit" where
  "validateSubject name maxMarks =
     (if length (trim name) = 0 then Inl (Error ''Subject name must be a non-empty string'')
      else if js_le maxMarks (Fin 0) then Inl (Error ''Maximum marks must be a positive number'')
      else if js_gt maxMarks (Fin 1000) then Inl (Error ''Maximum marks cannot exceed 1000'')
      else Inr ())"

definition new_Subject :: "string \<Rightarrow> jsnum \<Rightarrow> bool \<Rightarrow> error + Subject" where
  "new_Subject name maxMarks isOptional =
     (case validateSubject name maxMarks of
        Inl e \<Rightarrow> Inl e
      | Inr _ \<Rightarrow> Inr (Subject (trim name) maxMarks isOptional))"

section \<open>Result (src/domain/entities/Result.ts)\<close>

text \<open>
  A JavaScript \<^verbatim>\<open>Map\<close> keeps its entries in insertion order; \<^verbatim>\<open>set\<close> on a key that
  is present replaces the value in place, on a new key it appends an entry.
\<close>

fun Map_set :: "'k \<Rightarrow> 'v \<Rightarrow> ('k \<times> 'v) list \<Rightarrow> ('k \<times> 'v) list" where
  "Map_set k v [] = [(k, v)]"
| "Map_set k v ((k', v') # m) = (if k' = k then (k, v) # m else (k', v') # Map_set k v m)"

definition Map_get :: "('k \<times> 'v) list \<Rightarrow> 'k \<Rightarrow> 'v option" where
  "Map_get m k = map_of m k"

definition Map_keys :: "('k \<times> 'v) list \<Rightarrow> 'k list" where
  "Map_keys m = map fst m"

definition Map_values :: "('k \<times> 'v) list \<Rightarrow> 'v list" where
  "Map_values m = map snd m"

record StudentResult =
  student :: Student
  marks :: "(string \<times> Marks) list"
  totalMarks :: Marks
  percentage :: Percentage
  rank :: "nat option"

text \<open>The creation timestamp of a Result is not modelled; no operation reads it.\<close>

record Result =
  resultId :: string
  title :: string
  subjects :: "Subject list"
  studentResults :: "(string \<times> StudentResult) list"
  maxTotalMarks :: jsnum

definition validateResult :: "string \<Rightarrow> string \<Rightarrow> Subject list \<Rightarrow> error + unit" where
  "validateResult ident ttl subjs =
     (if length (trim ident) = 0 then Inl (Error ''Result ID must be a non-empty string'')
      else if length (trim ttl) = 0 then Inl (Error ''Result title must be a non-empty string'')
      else if length subjs = 0 then Inl (Error ''Result must have at least one subject'')
      else Inr ())"

text \<open>
  \<^verbatim>\<open>validateStudentResult\<close> throws at the first expected subject name that is not a
  key of the marks map.
\<close>

fun validateStudentResult :: "string list \<Rightarrow> StudentResult \<Rightarrow> error + unit" where
  "validateStudentResult [] studentResult = Inr ()"
| "validateStudentResult (expectedSubject # rest) studentResult =
     (if expectedSubject \<notin> set (Map_keys (marks studentResult))
      then Inl (Error (''Missing marks for subject: '' @ expectedSubject))
      else validateStudentResult rest studentResult)"

definition addStudentResult :: "Result \<Rightarrow> StudentResult \<Rightarrow> error + Result" where
  "addStudentResult r studentResult =
     (case validateStudentResult (map Subject_getName (subjects r)) studentResult of
        Inl e \<Rightarrow> Inl e
      | Inr _ \<Rightarrow>
          Inr (r\<lparr>studentResults :=
                   Map_set (Student_getRollNumber (student studentResult)) studentResult
                     (studentResults r)\<rparr>))"

fun addAll :: "Result \<Rightarrow> StudentResult list \<Rightarrow> error + Result" where
  "addAll r [] = Inr r"
| "addAll r (x # xs) =
     (case addStudentResult r x of Inl e \<Rightarrow> Inl e | Inr r' \<Rightarrow> addAll r' xs)"

definition new_Result ::
  "string \<Rightarrow> string \<Rightarrow> Subject list \<Rightarrow> StudentResult list \<Rightarrow> error + Result" where
  "new_Result ident ttl subjs results =
     (case validateResult ident ttl subjs of
        Inl e \<Rightarrow> Inl e
      | Inr _ \<Rightarrow>
          addAll \<lparr>resultId = ident, title = trim ttl, subjects = subjs, studentResults = [],
                  maxTotalMarks = foldl (\<lambda>sum subject. js_add sum (Subject_getMaxMarks subject))
                                    (Fin 0) subjs\<rparr>
            results)"

definition getStudentResults :: "Result \<Rightarrow> StudentResult list" where
  "getStudentResults r = Map_values (studentResults r)"

definition getStudentCount :: "Result \<Rightarrow> nat" where
  "getStudentCount r = length (studentResults r)"

subsection \<open>calculateRanks\<close>

text \<open>
  The comparator of the sort. \<^verbatim>\<open>percentageDiff !== 0\<close> is true for \<^verbatim>\<open>NaN\<close>.
  On finite numbers the floating-point difference has the sign of the exact
  difference and is zero exactly when the operands are equal, so the exact
  difference decides the order as the code does.
\<close>

definition compareResults :: "StudentResult \<Rightarrow> StudentResult \<Rightarrow> jsnum" where
  "compareResults a b =
     (let percentageDiff =
            js_sub (Percentage_getValue (percentage b)) (Percentage_getValue (percentage a))
      in if \<not> js_eq percentageDiff (Fin 0) then percentageDiff
         else js_sub (Marks_getValue (totalMarks b)) (Marks_getValue (totalMarks a)))"

text \<open>
  \<^verbatim>\<open>Array.prototype.sort\<close> is stable and reads only the sign of the comparator's
  result (\<^verbatim>\<open>NaN\<close> counts as zero). For a consistent comparator its result is the
  stable ordering, which insertion from the right computes.
\<close>

fun sort_insert :: "('a \<Rightarrow> 'a \<Rightarrow> jsnum) \<Rightarrow> 'a \<Rightarrow> 'a list \<Rightarrow> 'a list" where
  "sort_insert cmp x [] = [x]"
| "sort_insert cmp x (y # ys) =
     (if 0 < js_sign (cmp x y) then y # sort_insert cmp x ys else x # y # ys)"

definition Array_sort :: "('a \<Rightarrow> 'a \<Rightarrow> jsnum) \<Rightarrow> 'a list \<Rightarrow> 'a list" where
  "Array_sort cmp xs = foldr (sort_insert cmp) xs []"

text \<open>
  \<^verbatim>\<open>calculateRanks\<close> sorts an array of references to the StudentResult objects held
  by the map and writes the rank into each object. The objects are the store
  \<open>heap\<close> (the map's values in insertion order), a reference is an index into it,
  and \<open>results\<close> is the sorted array of references.
\<close>

definition sortedRefs :: "StudentResult list \<Rightarrow> nat list" where
  "sortedRefs heap =
     Array_sort (\<lambda>a b. compareResults (heap ! a) (heap ! b)) [0..<length heap]"

function assignRanks ::
  "nat list \<Rightarrow> nat \<Rightarrow> nat \<Rightarrow> StudentResult list \<Rightarrow> StudentResult list" where
  "assignRanks results i currentRank heap =
     (if i < length results then
        (let currentRank' =
               (if 0 < i \<and>
                   \<not> js_eq (Percentage_getValue (percentage (heap ! (results ! i))))
                           (Percentage_getValue (percentage (heap ! (results ! (i - 1)))))
                then i + 1 else currentRank)
         in assignRanks results (i + 1) currentRank'
              (heap[results ! i := (heap ! (results ! i))\<lparr>rank := Some currentRank'\<rparr>]))
      else heap)"
  by pat_completeness auto
termination
  by (relation "measure (\<lambda>(results, i, currentRank, heap). length results - i)") auto

declare assignRanks.simps [simp del]

definition calculateRanks :: "Result \<Rightarrow> Result" where
  "calculateRanks r =
     (let heap = getStudentResults r;
          results = sortedRefs heap
      in r\<lparr>studentResults :=
             zip (Map_keys (studentResults r)) (assignRanks results 0 1 heap)\<rparr>)"

subsection \<open>Result.fromRawData\<close>

text \<open>
  The raw marks of a student are a plain object (\<^verbatim>\<open>Record<string, number | string>\<close>).
  Reading a property of a plain object finds an own property, or else a member
  inherited from \<^verbatim>\<open>Object.prototype\<close> (a function or an object, never a number or a
  string), or else \<^verbatim>\<open>undefined\<close>.
\<close>

datatype rawMark = MNum jsnum | MStr string

datatype 'a property = Own 'a | Inherited | Absent

definition objectPrototypeKeys :: "string list" where
  "objectPrototypeKeys =
     [''constructor'', ''__defineGetter__'', ''__defineSetter__'', ''hasOwnProperty'',
      ''__lookupGetter__'', ''__lookupSetter__'', ''isPrototypeOf'', ''propertyIsEnumerable'',
      ''toString'', ''valueOf'', ''__proto__'', ''toLocaleString'']"

definition getProperty :: "(string \<times> 'a) list \<Rightarrow> string \<Rightarrow> 'a property" where
  "getProperty obj k =
     (case map_of obj k of
        Some v \<Rightarrow> Own v
      | None \<Rightarrow> if k \<in> set objectPrototypeKeys then Inherited else Absent)"

record RawStudent =
  raw_name :: string
  raw_rollNumber :: string
  raw_class :: "string option"
  raw_section :: "string option"
  raw_marks :: "(string \<times> rawMark) list"

record RawData =
  raw_id :: string
  raw_title :: string
  raw_subjects :: "string list"
  raw_studentData :: "RawStudent list"

definition Student_fromRawData :: "RawStudent \<Rightarrow> error + Student" where
  "Student_fromRawData d =
     (if raw_name d = [] then Inl (Error ''Student name is required'')
      else if raw_rollNumber d = [] then Inl (Error ''Student roll number is required'')
      else new_Student (raw_name d) (raw_rollNumber d) (raw_class d) (raw_section d))"

text \<open>
  The mark of one subject: a string goes through \<^verbatim>\<open>Marks.fromString\<close>, anything
  else through \<^verbatim>\<open>new Marks(markValue || 0)\<close>, where \<^verbatim>\<open>undefined\<close>, \<open>0\<close> and \<^verbatim>\<open>NaN\<close>
  are falsy and an inherited member fails the constructor's \<^verbatim>\<open>typeof\<close> test.
\<close>

definition markFor :: "RawStudent \<Rightarrow> Subject \<Rightarrow> error + Marks" where
  "markFor studentData subject =
     (case getProperty (raw_marks studentData) (Subject_getName subject) of
        Own (MStr markValue) \<Rightarrow> Marks_fromString markValue
      | Own (MNum markValue) \<Rightarrow>
          new_Marks (if markValue = NaN \<or> markValue = Fin 0 then Fin 0 else markValue) False
      | Absent \<Rightarrow> new_Marks (Fin 0) False
      | Inherited \<Rightarrow> Inl (Error ''Marks must be a number''))"

fun processSubjects ::
  "RawStudent \<Rightarrow> Subject list \<Rightarrow> (string \<times> Marks) list \<Rightarrow> jsnum \<Rightarrow>
     error + ((string \<times> Marks) list \<times> jsnum)" where
  "processSubjects studentData [] marksMap totalMarksValue = Inr (marksMap, totalMarksValue)"
| "processSubjects studentData (subject # rest) marksMap totalMarksValue =
     (case markFor studentData subject of
        Inl e \<Rightarrow> Inl e
      | Inr mark \<Rightarrow>
          processSubjects studentData rest (Map_set (Subject_getName subject) mark marksMap)
            (js_add totalMarksValue (Marks_getValue mark)))"

definition buildStudentResult :: "Subject list \<Rightarrow> RawStudent \<Rightarrow> error + StudentResult" where
  "buildStudentResult subjs studentData =
     (case Student_fromRawData studentData of
        Inl e \<Rightarrow> Inl e
      | Inr st \<Rightarrow>
     (case processSubjects studentData subjs [] (Fin 0) of
        Inl e \<Rightarrow> Inl e
      | Inr (marksMap, totalMarksValue) \<Rightarrow>
     (case Marks_total totalMarksValue of
        Inl e \<Rightarrow> Inl e
      | Inr tm \<Rightarrow>
     (case Percentage_fromMarks totalMarksValue
             (foldl (\<lambda>sum s. js_add sum (Subject_getMaxMarks s)) (Fin 0) subjs) of
        Inl e \<Rightarrow> Inl e
      | Inr pct \<Rightarrow>
          Inr \<lparr>student = st, marks = marksMap, totalMarks = tm, percentage = pct,
               rank = None\<rparr>))))"

text \<open>\<^verbatim>\<open>Array.prototype.map\<close> with a callback that may throw: the first failure ends it.\<close>

fun mapE :: "('a \<Rightarrow> error + 'b) \<Rightarrow> 'a list \<Rightarrow> error + 'b list" where
  "mapE f [] = Inr []"
| "mapE f (x # xs) =
     (case f x of
        Inl e \<Rightarrow> Inl e
      | Inr y \<Rightarrow> (case mapE f xs of Inl e \<Rightarrow> Inl e | Inr ys \<Rightarrow> Inr (y # ys)))"

definition Result_fromRawData :: "RawData \<Rightarrow> error + Result" where
  "Result_fromRawData d =
     (case mapE (\<lambda>name. new_Subject name (Fin 100) False) (raw_subjects d) of
        Inl e \<Rightarrow> Inl e
      | Inr subjs \<Rightarrow>
     (case mapE (buildStudentResult subjs) (raw_studentData d) of
        Inl e \<Rightarrow> Inl e
      | Inr results \<Rightarrow>
     (case new_Result (raw_id d) (raw_title d) subjs results of
        Inl e \<Rightarrow> Inl e
      | Inr r \<Rightarrow> Inr (calculateRanks r))))"

section \<open>Number to string\<close>

text \<open>
  \<^verbatim>\<open>Number::toString\<close> prints the shortest decimal that rounds to the double. For an
  integer of magnitude at most \<open>2^53\<close> these are its own decimal digits: every integer
  up to there is a double, so no shorter decimal rounds to it. The digits of any other
  finite number (a fraction, or an integer double above \<open>2^53\<close>, where
  \<^verbatim>\<open>String(2**66)\<close> is \<^verbatim>\<open>73786976294838210000\<close>) depend on the neighbouring doubles,
  which the exact rationals do not determine: they are the parameter \<open>fmt\<close> of every
  function that converts a number to a string.
\<close>

function intToString :: "int \<Rightarrow> string" where
  "intToString n =
     (if n < 10 then [char_of (48 + n)]
      else intToString (n div 10) @ [char_of (48 + n mod 10)])"
  by pat_completeness auto
termination
  by (relation "measure nat") auto

declare intToString.simps [simp del]

definition numberToString :: "(rat \<Rightarrow> string) \<Rightarrow> jsnum \<Rightarrow> string" where
  "numberToString fmt n =
     (case n of
        NaN \<Rightarrow> ''NaN''
      | PInf \<Rightarrow> ''Infinity''
      | NInf \<Rightarrow> ''-Infinity''
      | Fin q \<Rightarrow>
          if q = of_int \<lfloor>q\<rfloor> \<and> \<bar>q\<bar> \<le> 9007199254740992
          then (if q < 0 then ''-'' @ intToString (- \<lfloor>q\<rfloor>) else intToString \<lfloor>q\<rfloor>)
          else fmt q)"

section \<open>ResultCalculator.calculateMarksDistribution (src/domain/services)\<close>

text \<open>
  The distribution is a plain object with string keys. Its keys end in \<^verbatim>\<open>%\<close>, so they
  are ordinary properties kept in insertion order, like the entries of a Map.
  \<^verbatim>\<open>distribution[key]++\<close> on a missing key stores \<^verbatim>\<open>NaN\<close>. An array element out of
  range is \<^verbatim>\<open>undefined\<close> and prints as such in a template string.
\<close>

definition defaultRanges :: "jsnum list" where
  "defaultRanges = [Fin 0, Fin 40, Fin 60, Fin 75, Fin 90, Fin 100]"

definition rangeText :: "(rat \<Rightarrow> string) \<Rightarrow> jsnum list \<Rightarrow> int \<Rightarrow> string" where
  "rangeText fmt ranges i =
     (if 0 \<le> i \<and> i < int (length ranges) then numberToString fmt (ranges ! nat i)
      else ''undefined'')"

definition rangeKey :: "(rat \<Rightarrow> string) \<Rightarrow> jsnum list \<Rightarrow> int \<Rightarrow> string" where
  "rangeKey fmt ranges i = rangeText fmt ranges i @ ''-'' @ rangeText fmt ranges (i + 1) @ ''%''"

definition increment :: "(string \<times> jsnum) list \<Rightarrow> string \<Rightarrow> (string \<times> jsnum) list" where
  "increment distribution key =
     Map_set key
       (js_add (case Map_get distribution key of None \<Rightarrow> NaN | Some v \<Rightarrow> v) (Fin 1))
       distribution"

definition initDistribution :: "(rat \<Rightarrow> string) \<Rightarrow> jsnum list \<Rightarrow> (string \<times> jsnum) list" where
  "initDistribution fmt ranges =
     foldl (\<lambda>distribution i. Map_set (rangeKey fmt ranges (int i)) (Fin 0) distribution) []
       [0..<length ranges - 1]"

definition countStudent ::
  "(rat \<Rightarrow> string) \<Rightarrow> jsnum list \<Rightarrow> (string \<times> jsnum) list \<Rightarrow> StudentResult \<Rightarrow>
     (string \<times> jsnum) list" where
  "countStudent fmt ranges distribution studentResult =
     (let pct = Percentage_getValue (percentage studentResult);
          counted =
            (case find (\<lambda>i. js_ge pct (ranges ! i) \<and> js_lt pct (ranges ! (i + 1)))
                    [0..<length ranges - 1] of
               None \<Rightarrow> distribution
             | Some i \<Rightarrow> increment distribution (rangeKey fmt ranges (int i)))
      in if js_eq pct (Fin 100)
         then increment counted (rangeKey fmt ranges (int (length ranges) - 2))
         else counted)"

definition calculateMarksDistribution ::
  "(rat \<Rightarrow> string) \<Rightarrow> Result \<Rightarrow> jsnum list \<Rightarrow> (string \<times> jsnum) list" where
  "calculateMarksDistribution fmt result ranges =
     foldl (countStudent fmt ranges) (initDistribution fmt ranges) (getStudentResults result)"

section \<open>Untyped values (\<^verbatim>\<open>any\<close>)\<close>

text \<open>
  A value of type \<^verbatim>\<open>any\<close> that reaches the column mapper or the validation service:
  a spreadsheet cell is a string or a number (\<^verbatim>\<open>ExcelParser.processCellValue\<close>);
  \<^verbatim>\<open>undefined\<close> is what a missing property reads as; \<open>VObject\<close> stands for a plain
  object, which prints as \<^verbatim>\<open>[object Object]\<close>, such as the marks object of a row or
  \<^verbatim>\<open>Object.prototype\<close> itself; \<open>VFunction g\<close> stands for the built-in function named
  \<open>g\<close>, which prints as \<^verbatim>\<open>function g() { [native code] }\<close> (the text that V8 gives).
\<close>

datatype jsval =
  VUndefined | VNull | VBool bool | VNum jsnum | VStr string | VObject | VFunction string

fun truthy :: "jsval \<Rightarrow> bool" where
  "truthy VUndefined = False"
| "truthy VNull = False"
| "truthy (VBool b) = b"
| "truthy (VNum n) = (n \<noteq> NaN \<and> n \<noteq> Fin 0)"
| "truthy (VStr s) = (s \<noteq> [])"
| "truthy VObject = True"
| "truthy (VFunction g) = True"

fun ToString :: "(rat \<Rightarrow> string) \<Rightarrow> jsval \<Rightarrow> string" where
  "ToString fmt VUndefined = ''undefined''"
| "ToString fmt VNull = ''null''"
| "ToString fmt (VBool b) = (if b then ''true'' else ''false'')"
| "ToString fmt (VNum n) = numberToString fmt n"
| "ToString fmt (VStr s) = s"
| "ToString fmt VObject = ''[object Object]''"
| "ToString fmt (VFunction g) = ''function '' @ g @ ''() { [native code] }''"

text \<open>
  \<^verbatim>\<open>Number(string)\<close>: the trimmed string must be empty (giving 0), a complete
  \<^verbatim>\<open>StrDecimalLiteral\<close>, or a hexadecimal, octal or binary integer literal; anything
  else is \<^verbatim>\<open>NaN\<close>.
\<close>

definition digitValue :: "char \<Rightarrow> int option" where
  "digitValue c =
     (let n = (of_char c :: int)
      in if 48 \<le> n \<and> n \<le> 57 then Some (n - 48)
         else if 97 \<le> n \<and> n \<le> 102 then Some (n - 87)
         else if 65 \<le> n \<and> n \<le> 70 then Some (n - 55)
         else None)"

fun digitsInBase :: "int \<Rightarrow> int \<Rightarrow> string \<Rightarrow> int option" where
  "digitsInBase base acc [] = Some acc"
| "digitsInBase base acc (c # cs) =
     (case digitValue c of
        None \<Rightarrow> None
      | Some d \<Rightarrow> if d < base then digitsInBase base (base * acc + d) cs else None)"

definition nonDecimalIntegerLiteral :: "string \<Rightarrow> jsnum option" where
  "nonDecimalIntegerLiteral s =
     (case s of
        z # x # ds \<Rightarrow>
          if z = CHR ''0'' \<and> ds \<noteq> [] then
            (let base = (if x = CHR ''x'' \<or> x = CHR ''X'' then 16
                         else if x = CHR ''o'' \<or> x = CHR ''O'' then 8
                         else if x = CHR ''b'' \<or> x = CHR ''B'' then 2 else (0::int))
             in if base = 0 then None
                else map_option (\<lambda>n. Fin (of_int n)) (digitsInBase base 0 ds))
          else None
      | _ \<Rightarrow> None)"

definition StringToNumber :: "string \<Rightarrow> jsnum" where
  "StringToNumber s =
     (let t = trim s
      in if t = [] then Fin 0
         else
           (case nonDecimalIntegerLiteral t of
              Some n \<Rightarrow> n
            | None \<Rightarrow>
                (case strDecimalLiteral t of
                   None \<Rightarrow> NaN
                 | Some (v, r) \<Rightarrow> if r = [] then v else NaN)))"

fun ToNumber :: "jsval \<Rightarrow> jsnum" where
  "ToNumber VUndefined = NaN"
| "ToNumber VNull = Fin 0"
| "ToNumber (VBool b) = (if b then Fin 1 else Fin 0)"
| "ToNumber (VNum n) = n"
| "ToNumber (VStr s) = StringToNumber s"
| "ToNumber VObject = NaN"
| "ToNumber (VFunction g) = NaN"

text \<open>
  What a property that an object does not own reads as, for an object whose prototype
  is \<^verbatim>\<open>Object.prototype\<close>: the member of that name, or \<^verbatim>\<open>undefined\<close>. The accessor
  \<^verbatim>\<open>__proto__\<close> gives \<^verbatim>\<open>Object.prototype\<close>, \<^verbatim>\<open>constructor\<close> is the function
  \<^verbatim>\<open>Object\<close>, and every other member is a function of its own name.
\<close>

definition inheritedMember :: "string \<Rightarrow> jsval" where
  "inheritedMember k =
     (if k = ''__proto__'' then VObject
      else if k = ''constructor'' then VFunction ''Object''
      else if k \<in> set objectPrototypeKeys then VFunction k
      else VUndefined)"

text \<open>\<^verbatim>\<open>Math.min\<close> and \<^verbatim>\<open>Math.max\<close> of two numbers: \<^verbatim>\<open>NaN\<close> if either is.\<close>

definition Math_min :: "jsnum \<Rightarrow> jsnum \<Rightarrow> jsnum" where
  "Math_min a b = (if a = NaN \<or> b = NaN then NaN else if js_lt b a then b else a)"

definition Math_max :: "jsnum \<Rightarrow> jsnum \<Rightarrow> jsnum" where
  "Math_max a b = (if a = NaN \<or> b = NaN then NaN else if js_lt a b then b else a)"

section \<open>ColumnMapper.getMarksTransformer (src/features/excel/ColumnMapper.ts)\<close>

definition getMarksTransformer :: "(rat \<Rightarrow> string) \<Rightarrow> jsval \<Rightarrow> jsnum" where
  "getMarksTransformer fmt v =
     (if v = VNull \<or> v = VUndefined \<or> v = VStr [] then Fin 0
      else
        (let str = trim (toLowerCase (ToString fmt v))
         in if str = ''absent'' \<or> str = ''ab'' \<or> str = ''a'' then Fin 0
            else if str = ''pass'' \<or> str = ''p'' then Fin 40
            else if str = ''fail'' \<or> str = ''f'' then Fin 0
            else
              (let num = parseFloat str
               in if isNaN num then Fin 0 else Math_max (Fin 0) (Math_min (Fin 100) num))))"

section \<open>ValidationService (src/features/excel/ValidationService.ts)\<close>

text \<open>
  \<^verbatim>\<open>Object.entries\<close> of a plain object lists the keys that are array indices first,
  in ascending numeric order, and then the other keys in insertion order. An object
  is kept as its own properties in insertion order.
\<close>

definition isArrayIndex :: "string \<Rightarrow> bool" where
  "isArrayIndex k =
     (k \<noteq> [] \<and> list_all isDigit k \<and> (k = ''0'' \<or> hd k \<noteq> CHR ''0'') \<and>
      digitsToInt k < 4294967295)"

definition Object_entries :: "(string \<times> 'a) list \<Rightarrow> (string \<times> 'a) list" where
  "Object_entries obj =
     sort_key (\<lambda>e. digitsToInt (fst e)) (filter (\<lambda>e. isArrayIndex (fst e)) obj)
     @ filter (\<lambda>e. \<not> isArrayIndex (fst e)) obj"

definition Object_values :: "(string \<times> 'a) list \<Rightarrow> 'a list" where
  "Object_values obj = map snd (Object_entries obj)"

fun join :: "string \<Rightarrow> string list \<Rightarrow> string" where
  "join sep [] = []"
| "join sep [x] = x"
| "join sep (x # y # ys) = x @ sep @ join sep (y # ys)"

text \<open>
  A row after \<^verbatim>\<open>transformRowsForValidation\<close>: the properties assigned from the
  mappings, and the entries of the marks object. \<open>row_marks\<close> is \<open>None\<close> when a
  mapping has overwritten \<^verbatim>\<open>row.marks\<close> with a value that is not a plain object;
  that value is then the property \<^verbatim>\<open>marks\<close> of \<open>row_fields\<close>. A plain object that
  overwrites \<^verbatim>\<open>row.marks\<close> is \<^verbatim>\<open>Object.prototype\<close>, a cell being a string or a
  number, and has no enumerable property. A property that was not assigned reads as
  the member inherited from \<^verbatim>\<open>Object.prototype\<close>, or as \<^verbatim>\<open>undefined\<close>.
\<close>

record ValidationRow =
  row_fields :: "(string \<times> jsval) list"
  row_marks :: "(string \<times> jsval) list option"

definition readField :: "ValidationRow \<Rightarrow> string \<Rightarrow> jsval" where
  "readField row f =
     (if f = ''marks'' \<and> row_marks row \<noteq> None then VObject
      else (case map_of (row_fields row) f of None \<Rightarrow> inheritedMember f | Some v \<Rightarrow> v))"

record ValidationResult =
  v_isValid :: bool
  v_message :: "string option"

datatype severity = SevError | SevWarning

record ValidationRule =
  rule_name :: string
  rule_field :: string
  validator :: "jsval \<Rightarrow> ValidationRow \<Rightarrow> ValidationRow list \<Rightarrow> error + ValidationResult"
  severity :: severity

record Issue =
  issue_field :: string
  issue_rule :: string
  issue_message :: string

record RowValidationResult =
  rowIndex :: nat
  row_isValid :: bool
  errors :: "Issue list"
  warnings :: "Issue list"

subsection \<open>The default rules\<close>

definition valid :: "error + ValidationResult" where
  "valid = Inr \<lparr>v_isValid = True, v_message = None\<rparr>"

definition required_student_name :: "(rat \<Rightarrow> string) \<Rightarrow> ValidationRule" where
  "required_student_name fmt =
     \<lparr>rule_name = ''required_student_name'', rule_field = ''studentName'',
      validator = (\<lambda>v row allRows.
        Inr \<lparr>v_isValid = (truthy v \<and> 0 < length (trim (ToString fmt v))),
             v_message = Some ''Student name is required''\<rparr>),
      severity = SevError\<rparr>"

definition required_roll_number :: "(rat \<Rightarrow> string) \<Rightarrow> ValidationRule" where
  "required_roll_number fmt =
     \<lparr>rule_name = ''required_roll_number'', rule_field = ''rollNumber'',
      validator = (\<lambda>v row allRows.
        Inr \<lparr>v_isValid = (truthy v \<and> 0 < length (trim (ToString fmt v))),
             v_message = Some ''Roll number is required''\<rparr>),
      severity = SevError\<rparr>"

text \<open>The character class \<^verbatim>\<open>[a-zA-Z\s\.''-]\<close> of the name pattern.\<close>

definition isNameChar :: "char \<Rightarrow> bool" where
  "isNameChar c =
     (let n = (of_char c :: nat)
      in (97 \<le> n \<and> n \<le> 122) \<or> (65 \<le> n \<and> n \<le> 90) \<or> isWhiteSpace c \<or>
         c = CHR ''.'' \<or> c = CHR 0x27 \<or> c = CHR ''-'')"

definition name_format :: "(rat \<Rightarrow> string) \<Rightarrow> ValidationRule" where
  "name_format fmt =
     \<lparr>rule_name = ''name_format'', rule_field = ''studentName'',
      validator = (\<lambda>v row allRows.
        if \<not> truthy v then valid
        else
          (let name = trim (ToString fmt v);
               hasValidChars = (name \<noteq> [] \<and> list_all isNameChar name);
               hasMinLength = (2 \<le> length name);
               hasMaxLength = (length name \<le> 100)
           in if \<not> hasValidChars
              then Inr \<lparr>v_isValid = False, v_message = Some ''Name contains invalid characters''\<rparr>
              else if \<not> hasMinLength
              then Inr \<lparr>v_isValid = False,
                        v_message = Some ''Name must be at least 2 characters long''\<rparr>
              else if \<not> hasMaxLength
              then Inr \<lparr>v_isValid = False, v_message = Some ''Name cannot exceed 100 characters''\<rparr>
              else valid)),
      severity = SevError\<rparr>"

definition roll_number_format :: "(rat \<Rightarrow> string) \<Rightarrow> ValidationRule" where
  "roll_number_format fmt =
     \<lparr>rule_name = ''roll_number_format'', rule_field = ''rollNumber'',
      validator = (\<lambda>v row allRows.
        if \<not> truthy v then valid
        else
          (let rollNo = trim (ToString fmt v);
               hasValidLength = (1 \<le> length rollNo \<and> length rollNo \<le> 20)
           in if \<not> hasValidLength
              then Inr \<lparr>v_isValid = False,
                        v_message = Some ''Roll number must be between 1-20 characters''\<rparr>
              else valid)),
      severity = SevError\<rparr>"

definition marks_range :: "(rat \<Rightarrow> string) \<Rightarrow> ValidationRule" where
  "marks_range fmt =
     \<lparr>rule_name = ''marks_range'', rule_field = ''marks'',
      validator = (\<lambda>v row allRows.
        case row_marks row of
          None \<Rightarrow> Inr \<lparr>v_isValid = False, v_message = Some ''No marks data found''\<rparr>
        | Some marksObj \<Rightarrow>
            (let invalidMarks =
                   map (\<lambda>(subject, m). subject @ '': '' @ ToString fmt m)
                     (filter (\<lambda>(subject, m).
                        isNaN (ToNumber m) \<or> js_lt (ToNumber m) (Fin 0) \<or>
                        js_gt (ToNumber m) (Fin 100))
                      (Object_entries marksObj))
             in if 0 < length invalidMarks
                then Inr \<lparr>v_isValid = False,
                          v_message = Some (''Invalid marks (must be 0-100): ''
                                            @ join '', '' invalidMarks)\<rparr>
                else valid)),
      severity = SevError\<rparr>"

definition marks_consistency :: ValidationRule where
  "marks_consistency =
     \<lparr>rule_name = ''marks_consistency'', rule_field = ''marks'',
      validator = (\<lambda>v row allRows.
        case row_marks row of
          None \<Rightarrow> valid
        | Some marksObj \<Rightarrow>
            (let marksValues = Object_values marksObj;
                 validMarks =
                   filter (\<lambda>m. \<not> isNaN (ToNumber m) \<and> js_gt (ToNumber m) (Fin 0)) marksValues
             in if length validMarks = 0
                then Inr \<lparr>v_isValid = False,
                          v_message = Some ''Student has no valid marks in any subject''\<rparr>
                else
                  (let average =
                         js_div (foldl (\<lambda>sum mark. js_add sum (ToNumber mark)) (Fin 0) validMarks)
                           (Fin (of_nat (length validMarks)))
                   in if js_lt average (Fin 10)
                      then Inr \<lparr>v_isValid = True,
                                v_message = Some ''Very low average marks - please verify data''\<rparr>
                      else if js_gt average (Fin 95)
                      then Inr \<lparr>v_isValid = True,
                                v_message = Some ''Very high average marks - please verify data''\<rparr>
                      else valid))),
      severity = SevWarning\<rparr>"

text \<open>
  \<^verbatim>\<open>split(/\s+/)\<close>, the test for a digit, and the comparisons of a name with its
  upper-cased and lower-cased forms. \<^verbatim>\<open>toUpperCase\<close> leaves the Latin-1 range for the
  micro sign, the sharp s and the y with diaeresis, so its result is a list of code
  units.
\<close>

function splitWhiteSpace :: "string \<Rightarrow> string list" where
  "splitWhiteSpace s =
     (if dropWhile (\<lambda>c. \<not> isWhiteSpace c) s = [] then [takeWhile (\<lambda>c. \<not> isWhiteSpace c) s]
      else takeWhile (\<lambda>c. \<not> isWhiteSpace c) s
           # splitWhiteSpace (dropWhile isWhiteSpace (dropWhile (\<lambda>c. \<not> isWhiteSpace c) s)))"
  by pat_completeness auto
termination
proof (relation "measure length", goal_cases)
  case 1
  show ?case by simp
next
  case (2 s)
  define r where "r = dropWhile (\<lambda>c. \<not> isWhiteSpace c) s"
  have white: "isWhiteSpace c" if "dropWhile (\<lambda>c. \<not> isWhiteSpace c) t = c # cs" for t c cs
    using that by (induction t) (auto split: if_splits)
  obtain c cs where r: "r = c # cs" using 2 by (cases r) (auto simp: r_def)
  then have "isWhiteSpace c" using white [of s c cs] by (simp add: r_def)
  then have "length (dropWhile isWhiteSpace r) \<le> length cs"
    using r by (simp add: length_dropWhile_le)
  moreover have "length r \<le> length s" by (simp add: r_def length_dropWhile_le)
  ultimately show ?case using r by (simp add: r_def [symmetric])
qed

declare splitWhiteSpace.simps [simp del]

definition upperUnits :: "char \<Rightarrow> nat list" where
  "upperUnits c =
     (let n = (of_char c :: nat)
      in if (97 \<le> n \<and> n \<le> 122) \<or> (224 \<le> n \<and> n \<le> 254 \<and> n \<noteq> 247) then [n - 32]
         else if n = 181 then [924]
         else if n = 223 then [83, 83]
         else if n = 255 then [376]
         else [n])"

definition toUpperCase :: "string \<Rightarrow> nat list" where
  "toUpperCase s = concat (map upperUnits s)"

definition name_consistency :: "(rat \<Rightarrow> string) \<Rightarrow> ValidationRule" where
  "name_consistency fmt =
     \<lparr>rule_name = ''name_consistency'', rule_field = ''studentName'',
      validator = (\<lambda>v row allRows.
        if \<not> truthy v then valid
        else
          (let name = trim (ToString fmt v);
               words = splitWhiteSpace name
           in if length words = 1 \<and> length (hd words) < 3
              then Inr \<lparr>v_isValid = True, v_message = Some ''Very short name - please verify''\<rparr>
              else if list_ex isDigit name
              then Inr \<lparr>v_isValid = True,
                        v_message = Some ''Name contains numbers - please verify''\<rparr>
              else if map of_char name = toUpperCase name \<and> 10 < length name
              then Inr \<lparr>v_isValid = True,
                        v_message = Some ''Name is in all caps - consider proper case''\<rparr>
              else if name = toLowerCase name
              then Inr \<lparr>v_isValid = True,
                        v_message = Some ''Name is in all lowercase - consider proper case''\<rparr>
              else valid)),
      severity = SevWarning\<rparr>"

definition DEFAULT_RULES :: "(rat \<Rightarrow> string) \<Rightarrow> ValidationRule list" where
  "DEFAULT_RULES fmt =
     [required_student_name fmt, required_roll_number fmt, name_format fmt,
      roll_number_format fmt, marks_range fmt, marks_consistency, name_consistency fmt]"

subsection \<open>validateRow\<close>

text \<open>
  One rule applied to a row. A result is recorded only when it is not valid and has a
  non-empty message; a validator that throws is recorded as an error of the row.
\<close>

definition applyRule ::
  "ValidationRow \<Rightarrow> ValidationRow list \<Rightarrow> Issue list \<times> Issue list \<Rightarrow> ValidationRule \<Rightarrow>
     Issue list \<times> Issue list" where
  "applyRule row allRows acc rule =
     (case validator rule (readField row (rule_field rule)) row allRows of
        Inl (Error msg) \<Rightarrow>
          (fst acc @ [\<lparr>issue_field = rule_field rule, issue_rule = rule_name rule,
                       issue_message = ''Validation error: '' @ msg\<rparr>], snd acc)
      | Inr result \<Rightarrow>
          (case v_message result of
             None \<Rightarrow> acc
           | Some m \<Rightarrow>
               if \<not> v_isValid result \<and> m \<noteq> [] then
                 (if severity rule = SevError
                  then (fst acc @ [\<lparr>issue_field = rule_field rule, issue_rule = rule_name rule,
                                    issue_message = m\<rparr>], snd acc)
                  else (fst acc, snd acc @ [\<lparr>issue_field = rule_field rule,
                                             issue_rule = rule_name rule, issue_message = m\<rparr>]))
               else acc))"

definition validateRow ::
  "ValidationRow \<Rightarrow> nat \<Rightarrow> ValidationRule list \<Rightarrow> ValidationRow list \<Rightarrow> RowValidationResult" where
  "validateRow row index rules allRows =
     (let acc = foldl (applyRule row allRows) ([], []) rules
      in \<lparr>rowIndex = index, row_isValid = (length (fst acc) = 0), errors = fst acc,
          warnings = snd acc\<rparr>)"

subsection \<open>transformRowsForValidation\<close>







subsection \<open>analyzeDuplicates\<close>






subsection \<open>validateData\<close>






section \<open>Auxiliary notions for the properties\<close>

text \<open>
  The rank that the loop of \<^verbatim>\<open>calculateRanks\<close> gives to position \<open>i\<close> of the sorted
  array, as a function of the percentages along that array.
\<close>

fun rankAt :: "jsnum list \<Rightarrow> nat \<Rightarrow> nat" where
  "rankAt ps 0 = 1"
| "rankAt ps (Suc i) = (if \<not> js_eq (ps ! Suc i) (ps ! i) then Suc i + 1 else rankAt ps i)"

definition pctsOf :: "StudentResult list \<Rightarrow> nat list \<Rightarrow> jsnum list" where
  "pctsOf heap results = map (\<lambda>a. Percentage_getValue (percentage (heap ! a))) results"

text \<open>
  Percentage and Marks objects come from their constructors only, so the value of a
  stored percentage has passed \<^verbatim>\<open>validatePercentage\<close> and the value of a stored total
  has passed \<^verbatim>\<open>validateMarks\<close> with \<^verbatim>\<open>isTotal = true\<close>.
\<close>

definition valid_StudentResult :: "StudentResult \<Rightarrow> bool" where
  "valid_StudentResult sr =
     (validatePercentage (Percentage_getValue (percentage sr)) = Inr () \<and>
      validateMarks (Marks_getValue (totalMarks sr)) True = Inr ())"

text \<open>
  The order of the ranking: a higher percentage comes first, and among equal
  percentages a total that is not lower.
\<close>

definition precedes :: "StudentResult \<Rightarrow> StudentResult \<Rightarrow> bool" where
  "precedes x y =
     (js_gt (Percentage_getValue (percentage x)) (Percentage_getValue (percentage y)) \<or>
      (js_eq (Percentage_getValue (percentage x)) (Percentage_getValue (percentage y)) \<and>
       js_ge (Marks_getValue (totalMarks x)) (Marks_getValue (totalMarks y))))"

text \<open>The store after \<^verbatim>\<open>calculateRanks\<close>, for a store \<open>heap\<close> before it.\<close>

definition ranked :: "StudentResult list \<Rightarrow> StudentResult list" where
  "ranked heap = assignRanks (sortedRefs heap) 0 1 heap"

text \<open>
  Sample data: results over the single subject Math (maximum 100), as
  \<^verbatim>\<open>fromRawData\<close> builds them before ranking.
\<close>

definition sampleStudentResult :: "string \<Rightarrow> string \<Rightarrow> rat \<Rightarrow> StudentResult" where
  "sampleStudentResult name rollNumber p =
     \<lparr>student = Student name rollNumber None None, marks = [(''Math'', Marks (Fin p))],
      totalMarks = Marks (Fin p), percentage = Percentage (Fin p), rank = None\<rparr>"

definition sampleResult :: "StudentResult list \<Rightarrow> Result" where
  "sampleResult results =
     \<lparr>resultId = ''sample'', title = ''Sample'', subjects = [Subject ''Math'' (Fin 100) False],
      studentResults = map (\<lambda>sr. (Student_getRollNumber (student sr), sr)) results,
      maxTotalMarks = Fin 100\<rparr>"

definition fourStudents :: "StudentResult list" where
  "fourStudents =
     [sampleStudentResult ''Alice Top'' ''001'' 95, sampleStudentResult ''Diana High'' ''002'' 88,
      sampleStudentResult ''Bob Middle'' ''003'' 82, sampleStudentResult ''Charlie Low'' ''004'' 78]"

definition tiedStudents :: "StudentResult list" where
  "tiedStudents =
     [sampleStudentResult ''Student A'' ''001'' 85, sampleStudentResult ''Student B'' ''002'' 85,
      sampleStudentResult ''Student C'' ''003'' 75]"

definition ranksOf :: "Result \<Rightarrow> (jsnum \<times> nat option) list" where
  "ranksOf r = map (\<lambda>sr. (Percentage_getValue (percentage sr), rank sr)) (getStudentResults r)"

text \<open>
  The invariant of a Result: every StudentResult it holds has a marks entry for the
  name of every Subject of the Result.
\<close>

definition coversSubjects :: "Subject list \<Rightarrow> StudentResult \<Rightarrow> bool" where
  "coversSubjects subjs sr =
     list_all (\<lambda>subject. Subject_getName subject \<in> set (Map_keys (marks sr))) subjs"

text \<open>
  Sample raw data: two declared subjects, and a student whose marks object has no
  entry for the second one.
\<close>

definition missingScience :: RawData where
  "missingScience =
     \<lparr>raw_id = ''r1'', raw_title = ''Unit Test'', raw_subjects = [''Math'', ''Science''],
      raw_studentData =
        [\<lparr>raw_name = ''Student A'', raw_rollNumber = ''001'', raw_class = None,
          raw_section = None, raw_marks = [(''Math'', MNum (Fin 80))]\<rparr>]\<rparr>"

definition allCovered :: "Result \<Rightarrow> bool" where
  "allCovered r = list_all (coversSubjects (subjects r)) (getStudentResults r)"

text \<open>
  The raw student with an explicit mark of 0 under the name \<open>n\<close>, if its marks object
  has no entry of that name and inherits none.
\<close>

definition withDefaultMark :: "string \<Rightarrow> RawStudent \<Rightarrow> RawStudent" where
  "withDefaultMark n sd =
     (if getProperty (raw_marks sd) n = Absent
      then sd\<lparr>raw_marks := raw_marks sd @ [(n, MNum (Fin 0))]\<rparr>
      else sd)"

definition toStringSubject :: RawData where
  "toStringSubject =
     \<lparr>raw_id = ''r2'', raw_title = ''Unit Test'', raw_subjects = [''Math'', ''toString''],
      raw_studentData =
        [\<lparr>raw_name = ''Student A'', raw_rollNumber = ''001'', raw_class = None,
          raw_section = None, raw_marks = [(''Math'', MNum (Fin 80))]\<rparr>]\<rparr>"

text \<open>The students of a bucket: those whose percentage is at least \<open>lo\<close> and below \<open>hi\<close>.\<close>

definition inBucket :: "rat \<Rightarrow> rat \<Rightarrow> StudentResult \<Rightarrow> bool" where
  "inBucket lo hi sr =
     (js_ge (Percentage_getValue (percentage sr)) (Fin lo) \<and>
      js_lt (Percentage_getValue (percentage sr)) (Fin hi))"

definition isHundred :: "StudentResult \<Rightarrow> bool" where
  "isHundred sr = js_eq (Percentage_getValue (percentage sr)) (Fin 100)"

definition countOf :: "(StudentResult \<Rightarrow> bool) \<Rightarrow> StudentResult list \<Rightarrow> rat" where
  "countOf P srs = of_nat (length (filter P srs))"



definition lowMarksRow :: ValidationRow where
  "lowMarksRow =
     \<lparr>row_fields = [(''studentName'', VStr ''Student A''), (''rollNumber'', VStr ''001'')],
      row_marks = Some [(''math'', VNum (Fin 5)), (''science'', VNum (Fin 7))]\<rparr>"











definition highMarksRow :: ValidationRow where
  "highMarksRow =
     \<lparr>row_fields = [(''studentName'', VStr ''Student B''), (''rollNumber'', VStr ''002'')],
      row_marks = Some [(''math'', VNum (Fin 99)), (''science'', VNum (Fin 98))]\<rparr>"




section \<open>Properties of Percentage\<close>

lemma validatePercentage_ok:
  "validatePercentage x = Inr u \<Longrightarrow> \<exists>q. x = Fin q \<and> 0 \<le> q \<and> q \<le> 100"
  by (cases x) (auto simp: validatePercentage_def isNaN_def js_gt_def split: if_splits)

lemma new_Percentage_range:
  "new_Percentage x = Inr p \<Longrightarrow> \<exists>q. Percentage_getValue p = Fin q \<and> 0 \<le> q \<and> q \<le> 100"
  by (auto simp: new_Percentage_def split: sum.splits dest: validatePercentage_ok)

lemma new_Percentage_exceeds:
  "js_gt x (Fin 100) \<Longrightarrow> isl_error (new_Percentage x)"
  by (cases x) (auto simp: new_Percentage_def validatePercentage_def isNaN_def js_gt_def
      isl_error_def)

text \<open>
  Claim C6. Every Percentage that the constructor or \<^verbatim>\<open>fromMarks\<close> returns holds a
  finite value between 0 and 100 inclusive; \<^verbatim>\<open>fromMarks(obtained, total)\<close> throws for
  every \<^verbatim>\<open>total <= 0\<close>, and throws whenever the computed ratio
  \<^verbatim>\<open>(obtained / total) * 100\<close> is greater than 100.
\<close>

theorem C6_percentage_range:
  "(new_Percentage x = Inr p \<longrightarrow>
      (\<exists>q. Percentage_getValue p = Fin q \<and> 0 \<le> q \<and> q \<le> 100))
   \<and> (Percentage_fromMarks obtained tot = Inr p' \<longrightarrow>
      (\<exists>q. Percentage_getValue p' = Fin q \<and> 0 \<le> q \<and> q \<le> 100))
   \<and> (js_le tot (Fin 0) \<longrightarrow> isl_error (Percentage_fromMarks obtained tot))
   \<and> (js_gt (js_mul (js_div obtained tot) (Fin 100)) (Fin 100) \<longrightarrow>
      isl_error (Percentage_fromMarks obtained tot))"
proof (intro conjI impI)
  assume "new_Percentage x = Inr p"
  then show "\<exists>q. Percentage_getValue p = Fin q \<and> 0 \<le> q \<and> q \<le> 100"
    by (rule new_Percentage_range)
next
  assume "Percentage_fromMarks obtained tot = Inr p'"
  then have "new_Percentage (js_mul (js_div obtained tot) (Fin 100)) = Inr p'"
    by (simp add: Percentage_fromMarks_def split: if_splits)
  then show "\<exists>q. Percentage_getValue p' = Fin q \<and> 0 \<le> q \<and> q \<le> 100"
    by (rule new_Percentage_range)
next
  assume "js_le tot (Fin 0)"
  then show "isl_error (Percentage_fromMarks obtained tot)"
    by (simp add: Percentage_fromMarks_def isl_error_def)
next
  assume "js_gt (js_mul (js_div obtained tot) (Fin 100)) (Fin 100)"
  then show "isl_error (Percentage_fromMarks obtained tot)"
    by (simp add: Percentage_fromMarks_def isl_error_def new_Percentage_exceeds [unfolded isl_error_def])
qed

theorem C6_percentage_range_witness:
  "new_Percentage (Fin 85) = Inr (Percentage (Fin 85))
   \<and> Percentage_fromMarks (Fin 255) (Fin 300) = Inr (Percentage (Fin 85))
   \<and> (\<exists>q. Percentage_getValue (Percentage (Fin 85)) = Fin q \<and> 0 \<le> q \<and> q \<le> 100)
   \<and> js_le (Fin 0) (Fin 0) \<and> isl_error (Percentage_fromMarks (Fin 50) (Fin 0))
   \<and> js_gt (js_mul (js_div (Fin 120) (Fin 100)) (Fin 100)) (Fin 100)
   \<and> isl_error (Percentage_fromMarks (Fin 120) (Fin 100))"
proof -
  have a: "new_Percentage (Fin 85) = Inr (Percentage (Fin 85))"
    by (simp add: new_Percentage_def validatePercentage_def isNaN_def js_gt_def)
  have b: "Percentage_fromMarks (Fin 255) (Fin 300) = Inr (Percentage (Fin 85))"
    by (simp add: Percentage_fromMarks_def js_le_def new_Percentage_def validatePercentage_def
        isNaN_def js_gt_def)
  have c: "js_le (Fin 0) (Fin 0)" by (simp add: js_le_def)
  have d: "js_gt (js_mul (js_div (Fin 120) (Fin 100)) (Fin 100)) (Fin 100)"
    by (simp add: js_gt_def)
  from C6_percentage_range [of "Fin 85" "Percentage (Fin 85)" "Fin 255" "Fin 300" "Percentage (Fin 85)"]
    C6_percentage_range [of "Fin 85" "Percentage (Fin 85)" "Fin 50" "Fin 0" "Percentage (Fin 85)"]
    C6_percentage_range [of "Fin 85" "Percentage (Fin 85)" "Fin 120" "Fin 100" "Percentage (Fin 85)"]
    a b c d
  show ?thesis by blast
qed

section \<open>Properties of calculateRanks\<close>

lemma rankAt_le: "rankAt ps i \<le> i + 1"
  by (induction i) auto

lemma rankAt_pos: "0 < rankAt ps i"
  by (induction i) auto

lemma set_sort_insert: "set (sort_insert cmp x ys) = insert x (set ys)"
  by (induction ys) auto

lemma length_sort_insert: "length (sort_insert cmp x ys) = Suc (length ys)"
  by (induction ys) auto

lemma distinct_sort_insert: "distinct (sort_insert cmp x ys) = (x \<notin> set ys \<and> distinct ys)"
  by (induction ys) (auto simp: set_sort_insert)

lemma set_Array_sort: "set (Array_sort cmp xs) = set xs"
  by (induction xs) (auto simp: Array_sort_def set_sort_insert)

lemma length_Array_sort: "length (Array_sort cmp xs) = length xs"
  by (induction xs) (auto simp: Array_sort_def length_sort_insert)

lemma distinct_Array_sort: "distinct (Array_sort cmp xs) = distinct xs"
  by (induction xs) (auto simp: Array_sort_def distinct_sort_insert set_Array_sort [unfolded Array_sort_def])

lemma sort_insert_cong:
  "(\<And>y. y \<in> set ys \<Longrightarrow> f x y = g x y) \<Longrightarrow> sort_insert f x ys = sort_insert g x ys"
  by (induction ys) auto

lemma Array_sort_cong:
  "(\<And>x y. x \<in> set xs \<Longrightarrow> y \<in> set xs \<Longrightarrow> f x y = g x y) \<Longrightarrow> Array_sort f xs = Array_sort g xs"
proof (induction xs)
  case Nil
  then show ?case by (simp add: Array_sort_def)
next
  case (Cons x xs)
  have eq: "Array_sort f xs = Array_sort g xs"
    using Cons by simp
  have "sort_insert f x (Array_sort g xs) = sort_insert g x (Array_sort g xs)"
    by (rule sort_insert_cong) (simp add: Cons.prems set_Array_sort)
  with eq show ?case by (simp add: Array_sort_def)
qed

lemma set_sortedRefs: "set (sortedRefs heap) = {0..<length heap}"
  by (simp add: sortedRefs_def set_Array_sort)

lemma length_sortedRefs: "length (sortedRefs heap) = length heap"
  by (simp add: sortedRefs_def length_Array_sort)

lemma distinct_sortedRefs: "distinct (sortedRefs heap)"
  by (simp add: sortedRefs_def distinct_Array_sort)

lemma pctsOf_update:
  "pctsOf (heap[a := (heap ! a)\<lparr>rank := v\<rparr>]) results = pctsOf heap results"
  by (cases "a < length heap") (auto simp: pctsOf_def nth_list_update list_update_beyond)

lemma assignRanks_inv:
  "distinct results \<Longrightarrow> \<forall>a\<in>set results. a < length heap \<Longrightarrow> i \<le> length results \<Longrightarrow>
   c = (if i = 0 then 1 else rankAt (pctsOf heap results) (i - 1)) \<Longrightarrow>
   length (assignRanks results i c heap) = length heap \<and>
   (\<forall>j. i \<le> j \<and> j < length results \<longrightarrow>
      assignRanks results i c heap ! (results ! j) =
        (heap ! (results ! j))\<lparr>rank := Some (rankAt (pctsOf heap results) j)\<rparr>) \<and>
   (\<forall>a < length heap. a \<notin> set (drop i results) \<longrightarrow> assignRanks results i c heap ! a = heap ! a)"
proof (induction results i c heap rule: assignRanks.induct)
  case (1 results i c heap)
  show ?case
  proof (cases "i < length results")
    case False
    then show ?thesis using "1.prems" by (auto simp: assignRanks.simps)
  next
    case True
    define ps where "ps = pctsOf heap results"
    define c' where "c' = (if 0 < i \<and>
                   \<not> js_eq (Percentage_getValue (percentage (heap ! (results ! i))))
                           (Percentage_getValue (percentage (heap ! (results ! (i - 1)))))
                then i + 1 else c)"
    define heap' where "heap' = heap[results ! i := (heap ! (results ! i))\<lparr>rank := Some c'\<rparr>]"
    have unfold: "assignRanks results i c heap = assignRanks results (i + 1) c' heap'"
      using True by (subst assignRanks.simps) (simp add: c'_def heap'_def Let_def)
    have ps': "pctsOf heap' results = ps"
      by (simp add: heap'_def ps_def pctsOf_update)
    have nth_ps: "\<And>j. j < length results \<Longrightarrow> ps ! j = Percentage_getValue (percentage (heap ! (results ! j)))"
      by (simp add: ps_def pctsOf_def)
    have c'_eq: "c' = rankAt ps i"
    proof (cases i)
      case 0
      then show ?thesis using "1.prems"(4) by (simp add: c'_def)
    next
      case (Suc k)
      then show ?thesis using "1.prems"(4) True
        by (simp add: c'_def nth_ps ps_def [symmetric])
    qed
    have IH: "length (assignRanks results (i + 1) c' heap') = length heap' \<and>
      (\<forall>j. i + 1 \<le> j \<and> j < length results \<longrightarrow>
        assignRanks results (i + 1) c' heap' ! (results ! j) =
          (heap' ! (results ! j))\<lparr>rank := Some (rankAt (pctsOf heap' results) j)\<rparr>) \<and>
      (\<forall>a < length heap'. a \<notin> set (drop (i + 1) results) \<longrightarrow>
        assignRanks results (i + 1) c' heap' ! a = heap' ! a)"
    proof (rule "1.IH" [OF True refl, folded c'_def, folded heap'_def])
      show "distinct results" by (rule "1.prems")
      show "\<forall>a\<in>set results. a < length heap'"
        using "1.prems"(2) by (simp add: heap'_def)
      show "i + 1 \<le> length results" using True by simp
      show "c' = (if i + 1 = 0 then 1 else rankAt (pctsOf heap' results) (i + 1 - 1))"
        using c'_eq ps' by simp
    qed
    have ri: "results ! i < length heap" using "1.prems"(2) True by simp
    have notin: "results ! i \<notin> set (drop (i + 1) results)"
      using "1.prems"(1) True
      by (metis Cons_nth_drop_Suc Suc_eq_plus1 distinct.simps(2) distinct_drop)
    have drop_eq: "set (drop i results) = insert (results ! i) (set (drop (i + 1) results))"
      using True by (metis Cons_nth_drop_Suc Suc_eq_plus1 list.simps(15))
    show ?thesis
    proof (intro conjI allI impI)
      show "length (assignRanks results i c heap) = length heap"
        using IH by (simp add: unfold heap'_def)
    next
      fix j assume j: "i \<le> j \<and> j < length results"
      show "assignRanks results i c heap ! (results ! j) =
        (heap ! (results ! j))\<lparr>rank := Some (rankAt (pctsOf heap results) j)\<rparr>"
      proof (cases "j = i")
        case True
        have "assignRanks results (i + 1) c' heap' ! (results ! i) = heap' ! (results ! i)"
          using IH notin ri by (simp add: heap'_def)
        then show ?thesis using True ri c'_eq by (simp add: unfold heap'_def ps_def)
      next
        case False
        then have j': "i + 1 \<le> j \<and> j < length results" using j by simp
        have ne: "results ! j \<noteq> results ! i"
          using False j \<open>i < length results\<close> "1.prems"(1) by (simp add: nth_eq_iff_index_eq)
        have "assignRanks results (i + 1) c' heap' ! (results ! j) =
          (heap' ! (results ! j))\<lparr>rank := Some (rankAt ps j)\<rparr>"
          using IH j' ps' by simp
        then show ?thesis using ne by (simp add: unfold heap'_def ps_def)
      qed
    next
      fix a assume a: "a < length heap" "a \<notin> set (drop i results)"
      then have "a \<noteq> results ! i" "a \<notin> set (drop (i + 1) results)"
        using drop_eq by auto
      then show "assignRanks results i c heap ! a = heap ! a"
        using IH a(1) by (simp add: unfold heap'_def)
    qed
  qed
qed

lemma ranked_inv:
  "length (ranked heap) = length heap \<and>
   (\<forall>j. j < length heap \<longrightarrow>
      ranked heap ! (sortedRefs heap ! j) =
        (heap ! (sortedRefs heap ! j))\<lparr>rank := Some (rankAt (pctsOf heap (sortedRefs heap)) j)\<rparr>)"
  using assignRanks_inv [of "sortedRefs heap" heap 0 1]
  by (simp add: distinct_sortedRefs set_sortedRefs length_sortedRefs ranked_def)

lemma ranked_length: "length (ranked heap) = length heap"
  using ranked_inv by blast

lemma ranked_nth:
  "j < length heap \<Longrightarrow>
   ranked heap ! (sortedRefs heap ! j) =
     (heap ! (sortedRefs heap ! j))\<lparr>rank := Some (rankAt (pctsOf heap (sortedRefs heap)) j)\<rparr>"
  using ranked_inv by blast

lemma ref_is_sorted_position:
  assumes "a < length heap"
  obtains j where "j < length heap" "sortedRefs heap ! j = a"
proof -
  have "a \<in> set (sortedRefs heap)" using assms by (simp add: set_sortedRefs)
  then obtain j where "j < length (sortedRefs heap)" "sortedRefs heap ! j = a"
    by (auto simp: in_set_conv_nth)
  then show thesis using that by (simp add: length_sortedRefs)
qed

lemma calculateRanks_alt:
  "calculateRanks r =
     r\<lparr>studentResults := zip (Map_keys (studentResults r)) (ranked (getStudentResults r))\<rparr>"
  by (simp only: calculateRanks_def Let_def ranked_def)

lemma calculateRanks_values:
  "getStudentResults (calculateRanks r) = ranked (getStudentResults r)"
proof -
  have "length (Map_keys (studentResults r)) = length (ranked (getStudentResults r))"
    by (simp add: ranked_length getStudentResults_def Map_values_def Map_keys_def)
  then show ?thesis
    by (simp add: calculateRanks_alt getStudentResults_def Map_values_def)
qed

lemma calculateRanks_keys:
  "Map_keys (studentResults (calculateRanks r)) = Map_keys (studentResults r)"
proof -
  have "length (Map_keys (studentResults r)) = length (ranked (getStudentResults r))"
    by (simp add: ranked_length getStudentResults_def Map_values_def Map_keys_def)
  then show ?thesis
    by (simp add: calculateRanks_alt Map_keys_def [of "zip _ _"])
qed

lemma ranked_only_rank:
  assumes "a < length heap"
  shows "\<exists>k. ranked heap ! a = (heap ! a)\<lparr>rank := Some k\<rparr>"
proof -
  obtain j where j: "j < length heap" "sortedRefs heap ! j = a"
    using assms by (rule ref_is_sorted_position)
  show ?thesis using ranked_nth [OF j(1)] j(2) by auto
qed

lemma sortedRefs_ranked: "sortedRefs (ranked heap) = sortedRefs heap"
proof -
  have "Array_sort (\<lambda>a b. compareResults (ranked heap ! a) (ranked heap ! b)) [0..<length heap] =
        Array_sort (\<lambda>a b. compareResults (heap ! a) (heap ! b)) [0..<length heap]"
  proof (rule Array_sort_cong)
    fix x y assume "x \<in> set [0..<length heap]" "y \<in> set [0..<length heap]"
    then have "x < length heap" "y < length heap" by simp_all
    then obtain k l where "ranked heap ! x = (heap ! x)\<lparr>rank := Some k\<rparr>"
      "ranked heap ! y = (heap ! y)\<lparr>rank := Some l\<rparr>"
      using ranked_only_rank by blast
    then show "compareResults (ranked heap ! x) (ranked heap ! y) =
        compareResults (heap ! x) (heap ! y)"
      by (simp add: compareResults_def Let_def)
  qed
  then show ?thesis by (simp add: sortedRefs_def ranked_length)
qed

lemma pctsOf_ranked: "pctsOf (ranked heap) (sortedRefs heap) = pctsOf heap (sortedRefs heap)"
proof -
  have "percentage (ranked heap ! a) = percentage (heap ! a)" if "a \<in> set (sortedRefs heap)" for a
  proof -
    from that have "a < length heap" by (simp add: set_sortedRefs)
    then obtain k where "ranked heap ! a = (heap ! a)\<lparr>rank := Some k\<rparr>"
      using ranked_only_rank by blast
    then show ?thesis by simp
  qed
  then show ?thesis by (simp add: pctsOf_def)
qed

lemma ranked_ranked: "ranked (ranked heap) = ranked heap"
proof (rule nth_equalityI)
  show "length (ranked (ranked heap)) = length (ranked heap)" by (simp add: ranked_length)
next
  fix a assume "a < length (ranked (ranked heap))"
  then have a: "a < length heap" by (simp add: ranked_length)
  obtain j where j: "j < length heap" "sortedRefs heap ! j = a"
    using a by (rule ref_is_sorted_position)
  have "ranked (ranked heap) ! (sortedRefs (ranked heap) ! j) =
     (ranked heap ! (sortedRefs (ranked heap) ! j))
        \<lparr>rank := Some (rankAt (pctsOf (ranked heap) (sortedRefs (ranked heap))) j)\<rparr>"
    by (rule ranked_nth) (simp add: ranked_length j)
  then have "ranked (ranked heap) ! a =
     (ranked heap ! a)\<lparr>rank := Some (rankAt (pctsOf heap (sortedRefs heap)) j)\<rparr>"
    by (simp add: sortedRefs_ranked pctsOf_ranked j)
  moreover have "ranked heap ! a = (heap ! a)\<lparr>rank := Some (rankAt (pctsOf heap (sortedRefs heap)) j)\<rparr>"
    using ranked_nth [OF j(1)] j(2) by simp
  ultimately show "ranked (ranked heap) ! a = ranked heap ! a" by simp
qed

text \<open>
  Claim C9. \<^verbatim>\<open>calculateRanks\<close> is idempotent: a second invocation leaves the Result
  as the first one left it, so every StudentResult keeps the rank it had.
\<close>

theorem C9_calculateRanks_idempotent:
  "calculateRanks (calculateRanks r) = calculateRanks r
   \<and> map rank (getStudentResults (calculateRanks (calculateRanks r))) =
       map rank (getStudentResults (calculateRanks r))"
proof -
  have "calculateRanks (calculateRanks r) =
      (calculateRanks r)\<lparr>studentResults := zip (Map_keys (studentResults r))
         (ranked (ranked (getStudentResults r)))\<rparr>"
    by (subst calculateRanks_alt) (simp only: calculateRanks_values calculateRanks_keys)
  also have "\<dots> = calculateRanks r"
    by (simp add: ranked_ranked calculateRanks_alt)
  finally have "calculateRanks (calculateRanks r) = calculateRanks r" .
  then show ?thesis by simp
qed

lemma valid_StudentResult_cases:
  assumes "valid_StudentResult sr"
  obtains p t where "Percentage_getValue (percentage sr) = Fin p"
    "Marks_getValue (totalMarks sr) = Fin t \<or> Marks_getValue (totalMarks sr) = PInf"
proof -
  obtain p where "Percentage_getValue (percentage sr) = Fin p"
    using assms validatePercentage_ok unfolding valid_StudentResult_def by blast
  moreover have "\<exists>t. Marks_getValue (totalMarks sr) = Fin t \<or> Marks_getValue (totalMarks sr) = PInf"
    using assms unfolding valid_StudentResult_def
    by (cases "Marks_getValue (totalMarks sr)") (auto simp: validateMarks_def isNaN_def split: if_splits)
  ultimately show thesis using that by blast
qed

lemma compare_positive_iff:
  assumes "valid_StudentResult x" "valid_StudentResult y"
  shows "(0 < js_sign (compareResults x y)) = (\<not> precedes x y)"
proof -
  obtain p t where x: "Percentage_getValue (percentage x) = Fin p"
    "Marks_getValue (totalMarks x) = Fin t \<or> Marks_getValue (totalMarks x) = PInf"
    using assms(1) by (rule valid_StudentResult_cases)
  obtain q u where y: "Percentage_getValue (percentage y) = Fin q"
    "Marks_getValue (totalMarks y) = Fin u \<or> Marks_getValue (totalMarks y) = PInf"
    using assms(2) by (rule valid_StudentResult_cases)
  show ?thesis
    using x y
    by (auto simp: compareResults_def precedes_def js_sub_def js_eq_def js_gt_def js_ge_def
        js_le_def Let_def split: if_splits)
qed

lemma precedes_total:
  assumes "valid_StudentResult x" "valid_StudentResult y" "\<not> precedes x y"
  shows "precedes y x"
proof -
  obtain p t where x: "Percentage_getValue (percentage x) = Fin p"
    "Marks_getValue (totalMarks x) = Fin t \<or> Marks_getValue (totalMarks x) = PInf"
    using assms(1) by (rule valid_StudentResult_cases)
  obtain q u where y: "Percentage_getValue (percentage y) = Fin q"
    "Marks_getValue (totalMarks y) = Fin u \<or> Marks_getValue (totalMarks y) = PInf"
    using assms(2) by (rule valid_StudentResult_cases)
  show ?thesis
    using x y assms(3)
    by (auto simp: precedes_def js_eq_def js_gt_def js_ge_def js_le_def)
qed

lemma precedes_trans:
  assumes "valid_StudentResult x" "valid_StudentResult y" "valid_StudentResult z"
    "precedes x y" "precedes y z"
  shows "precedes x z"
proof -
  obtain p t where x: "Percentage_getValue (percentage x) = Fin p"
    "Marks_getValue (totalMarks x) = Fin t \<or> Marks_getValue (totalMarks x) = PInf"
    using assms(1) by (rule valid_StudentResult_cases)
  obtain q u where y: "Percentage_getValue (percentage y) = Fin q"
    "Marks_getValue (totalMarks y) = Fin u \<or> Marks_getValue (totalMarks y) = PInf"
    using assms(2) by (rule valid_StudentResult_cases)
  obtain r v where z: "Percentage_getValue (percentage z) = Fin r"
    "Marks_getValue (totalMarks z) = Fin v \<or> Marks_getValue (totalMarks z) = PInf"
    using assms(3) by (rule valid_StudentResult_cases)
  show ?thesis
    using x y z assms(4,5)
    by (auto simp: precedes_def js_eq_def js_gt_def js_ge_def js_le_def)
qed

lemma sorted_sort_insert:
  assumes "\<forall>a\<in>set (x # ys). valid_StudentResult (heap ! a)"
    "sorted_wrt (\<lambda>a b. precedes (heap ! a) (heap ! b)) ys"
  shows "sorted_wrt (\<lambda>a b. precedes (heap ! a) (heap ! b))
           (sort_insert (\<lambda>a b. compareResults (heap ! a) (heap ! b)) x ys)"
  using assms
proof (induction ys)
  case Nil
  then show ?case by simp
next
  case (Cons y ys)
  have vx: "valid_StudentResult (heap ! x)" and vy: "valid_StudentResult (heap ! y)"
    and vys: "\<forall>a\<in>set ys. valid_StudentResult (heap ! a)"
    using Cons.prems(1) by simp_all
  show ?case
  proof (cases "0 < js_sign (compareResults (heap ! x) (heap ! y))")
    case True
    then have "precedes (heap ! y) (heap ! x)"
      using compare_positive_iff [OF vx vy] precedes_total [OF vx vy] by simp
    moreover have "sorted_wrt (\<lambda>a b. precedes (heap ! a) (heap ! b))
        (sort_insert (\<lambda>a b. compareResults (heap ! a) (heap ! b)) x ys)"
      using Cons.IH Cons.prems by simp
    ultimately show ?thesis using True Cons.prems(2) by (auto simp: set_sort_insert)
  next
    case False
    then have xy: "precedes (heap ! x) (heap ! y)"
      using compare_positive_iff [OF vx vy] by simp
    have "precedes (heap ! x) (heap ! z)" if "z \<in> set ys" for z
    proof -
      have "precedes (heap ! y) (heap ! z)" using Cons.prems(2) that by simp
      moreover have "valid_StudentResult (heap ! z)" using vys that by simp
      ultimately show ?thesis using precedes_trans [OF vx vy _ xy] by blast
    qed
    then show ?thesis using False xy Cons.prems(2) by auto
  qed
qed

lemma sorted_Array_sort:
  "\<forall>a\<in>set xs. valid_StudentResult (heap ! a) \<Longrightarrow>
   sorted_wrt (\<lambda>a b. precedes (heap ! a) (heap ! b))
     (Array_sort (\<lambda>a b. compareResults (heap ! a) (heap ! b)) xs)"
proof (induction xs)
  case Nil
  then show ?case by (simp add: Array_sort_def)
next
  case (Cons x xs)
  have "sorted_wrt (\<lambda>a b. precedes (heap ! a) (heap ! b))
     (sort_insert (\<lambda>a b. compareResults (heap ! a) (heap ! b)) x
        (Array_sort (\<lambda>a b. compareResults (heap ! a) (heap ! b)) xs))"
    by (rule sorted_sort_insert) (use Cons in \<open>simp_all add: set_Array_sort\<close>)
  then show ?case by (simp add: Array_sort_def)
qed

lemma sorted_sortedRefs:
  assumes "\<forall>sr\<in>set heap. valid_StudentResult sr" "i < j" "j < length heap"
  shows "precedes (heap ! (sortedRefs heap ! i)) (heap ! (sortedRefs heap ! j))"
proof -
  have "sorted_wrt (\<lambda>a b. precedes (heap ! a) (heap ! b)) (sortedRefs heap)"
    unfolding sortedRefs_def by (rule sorted_Array_sort) (use assms(1) in simp)
  then show ?thesis
    using assms(2,3) by (simp add: sorted_wrt_iff_nth_less length_sortedRefs)
qed

lemma nth_pctsOf:
  "j < length results \<Longrightarrow>
   pctsOf heap results ! j = Percentage_getValue (percentage (heap ! (results ! j)))"
  by (simp add: pctsOf_def)

lemma rank_first:
  "heap \<noteq> [] \<Longrightarrow> rank (ranked heap ! (sortedRefs heap ! 0)) = Some 1"
  by (simp add: ranked_nth)

lemma rank_next:
  assumes "0 < i" "i < length heap"
  shows "rank (ranked heap ! (sortedRefs heap ! i)) =
     (if js_eq (Percentage_getValue (percentage (heap ! (sortedRefs heap ! i))))
               (Percentage_getValue (percentage (heap ! (sortedRefs heap ! (i - 1)))))
      then rank (ranked heap ! (sortedRefs heap ! (i - 1))) else Some (i + 1))"
proof -
  obtain k where k: "i = Suc k" using assms(1) by (cases i) auto
  have "k < length heap" using assms(2) k by simp
  then show ?thesis
    using assms(2) by (simp add: ranked_nth k nth_pctsOf length_sortedRefs)
qed

lemma rank_same_iff:
  assumes "0 < i" "i < length heap"
  shows "(rank (ranked heap ! (sortedRefs heap ! i)) =
          rank (ranked heap ! (sortedRefs heap ! (i - 1)))) =
     js_eq (Percentage_getValue (percentage (heap ! (sortedRefs heap ! i))))
           (Percentage_getValue (percentage (heap ! (sortedRefs heap ! (i - 1)))))"
proof -
  obtain k where k: "i = Suc k" using assms(1) by (cases i) auto
  have kl: "k < length heap" using assms(2) k by simp
  have "rankAt (pctsOf heap (sortedRefs heap)) k \<le> k + 1" by (rule rankAt_le)
  then show ?thesis
    using assms(2) kl by (auto simp: ranked_nth k nth_pctsOf length_sortedRefs)
qed

lemma fourStudents_constructed:
  "new_Result ''sample'' ''Sample'' [Subject ''Math'' (Fin 100) False] fourStudents =
     Inr (sampleResult fourStudents)"
  by code_simp

lemma tiedStudents_constructed:
  "new_Result ''sample'' ''Sample'' [Subject ''Math'' (Fin 100) False] tiedStudents =
     Inr (sampleResult tiedStudents)"
  by code_simp

lemma fourStudents_ranks:
  "ranksOf (calculateRanks (sampleResult fourStudents)) =
     [(Fin 95, Some 1), (Fin 88, Some 2), (Fin 82, Some 3), (Fin 78, Some 4)]"
  by code_simp

text \<open>
  Claim C3. For a non-empty Result whose stored values are valid, the sorted array
  of \<^verbatim>\<open>calculateRanks\<close> is a permutation of the student results in descending order
  of percentage, ties broken by total marks descending; only ranks change; the first
  record gets rank 1; each later record gets the rank of its predecessor if its
  percentage is exactly equal to the predecessor's and its 1-based position otherwise,
  so that it shares the predecessor's rank iff the percentages are equal. Four
  students with percentages 95, 88, 82, 78 get ranks 1, 2, 3, 4.
\<close>

theorem C3_calculateRanks_rule:
  "(\<forall>r. studentResults r \<noteq> [] \<and> (\<forall>sr\<in>set (getStudentResults r). valid_StudentResult sr) \<longrightarrow>
      (let heap = getStudentResults r;
           results = sortedRefs heap;
           after = getStudentResults (calculateRanks r);
           n = length heap
       in distinct results \<and> set results = {0..<n}
        \<and> (\<forall>i j. i < j \<and> j < n \<longrightarrow> precedes (heap ! (results ! i)) (heap ! (results ! j)))
        \<and> Map_keys (studentResults (calculateRanks r)) = Map_keys (studentResults r)
        \<and> length after = n
        \<and> (\<forall>a<n. after ! a = (heap ! a)\<lparr>rank := rank (after ! a)\<rparr>)
        \<and> rank (after ! (results ! 0)) = Some 1
        \<and> (\<forall>i. 0 < i \<and> i < n \<longrightarrow>
              rank (after ! (results ! i)) =
                (if js_eq (Percentage_getValue (percentage (heap ! (results ! i))))
                          (Percentage_getValue (percentage (heap ! (results ! (i - 1)))))
                 then rank (after ! (results ! (i - 1))) else Some (i + 1)))
        \<and> (\<forall>i. 0 < i \<and> i < n \<longrightarrow>
              (rank (after ! (results ! i)) = rank (after ! (results ! (i - 1)))) =
                js_eq (Percentage_getValue (percentage (heap ! (results ! i))))
                      (Percentage_getValue (percentage (heap ! (results ! (i - 1))))))))
   \<and> new_Result ''sample'' ''Sample'' [Subject ''Math'' (Fin 100) False] fourStudents =
       Inr (sampleResult fourStudents)
   \<and> ranksOf (calculateRanks (sampleResult fourStudents)) =
       [(Fin 95, Some 1), (Fin 88, Some 2), (Fin 82, Some 3), (Fin 78, Some 4)]"
proof (intro conjI allI impI)
  fix r
  assume h: "studentResults r \<noteq> [] \<and> (\<forall>sr\<in>set (getStudentResults r). valid_StudentResult sr)"
  define heap where "heap = getStudentResults r"
  have ne: "heap \<noteq> []" using h by (simp add: heap_def getStudentResults_def Map_values_def)
  have valid: "\<forall>sr\<in>set heap. valid_StudentResult sr" using h by (simp add: heap_def)
  have after: "getStudentResults (calculateRanks r) = ranked heap"
    by (simp add: calculateRanks_values heap_def)
  have only_rank: "\<forall>a<length heap. ranked heap ! a = (heap ! a)\<lparr>rank := rank (ranked heap ! a)\<rparr>"
  proof (intro allI impI)
    fix a assume "a < length heap"
    then obtain k where "ranked heap ! a = (heap ! a)\<lparr>rank := Some k\<rparr>"
      using ranked_only_rank by blast
    then show "ranked heap ! a = (heap ! a)\<lparr>rank := rank (ranked heap ! a)\<rparr>" by simp
  qed
  show "let heap = getStudentResults r;
           results = sortedRefs heap;
           after = getStudentResults (calculateRanks r);
           n = length heap
       in distinct results \<and> set results = {0..<n}
        \<and> (\<forall>i j. i < j \<and> j < n \<longrightarrow> precedes (heap ! (results ! i)) (heap ! (results ! j)))
        \<and> Map_keys (studentResults (calculateRanks r)) = Map_keys (studentResults r)
        \<and> length after = n
        \<and> (\<forall>a<n. after ! a = (heap ! a)\<lparr>rank := rank (after ! a)\<rparr>)
        \<and> rank (after ! (results ! 0)) = Some 1
        \<and> (\<forall>i. 0 < i \<and> i < n \<longrightarrow>
              rank (after ! (results ! i)) =
                (if js_eq (Percentage_getValue (percentage (heap ! (results ! i))))
                          (Percentage_getValue (percentage (heap ! (results ! (i - 1)))))
                 then rank (after ! (results ! (i - 1))) else Some (i + 1)))
        \<and> (\<forall>i. 0 < i \<and> i < n \<longrightarrow>
              (rank (after ! (results ! i)) = rank (after ! (results ! (i - 1)))) =
                js_eq (Percentage_getValue (percentage (heap ! (results ! i))))
                      (Percentage_getValue (percentage (heap ! (results ! (i - 1))))))"
    unfolding Let_def after heap_def [symmetric]
  proof (intro conjI allI impI)
    show "distinct (sortedRefs heap)" by (rule distinct_sortedRefs)
    show "set (sortedRefs heap) = {0..<length heap}" by (rule set_sortedRefs)
    show "Map_keys (studentResults (calculateRanks r)) = Map_keys (studentResults r)"
      by (rule calculateRanks_keys)
    show "length (ranked heap) = length heap" by (rule ranked_length)
    show "rank (ranked heap ! (sortedRefs heap ! 0)) = Some 1" using ne by (rule rank_first)
  next
    fix i j assume "i < j \<and> j < length heap"
    then show "precedes (heap ! (sortedRefs heap ! i)) (heap ! (sortedRefs heap ! j))"
      using sorted_sortedRefs [OF valid] by blast
  next
    fix a assume "a < length heap"
    then show "ranked heap ! a = (heap ! a)\<lparr>rank := rank (ranked heap ! a)\<rparr>"
      using only_rank by blast
  next
    fix i assume "0 < i \<and> i < length heap"
    then show "rank (ranked heap ! (sortedRefs heap ! i)) =
       (if js_eq (Percentage_getValue (percentage (heap ! (sortedRefs heap ! i))))
                 (Percentage_getValue (percentage (heap ! (sortedRefs heap ! (i - 1)))))
        then rank (ranked heap ! (sortedRefs heap ! (i - 1))) else Some (i + 1))"
      using rank_next by blast
  next
    fix i assume "0 < i \<and> i < length heap"
    then show "(rank (ranked heap ! (sortedRefs heap ! i)) =
          rank (ranked heap ! (sortedRefs heap ! (i - 1)))) =
       js_eq (Percentage_getValue (percentage (heap ! (sortedRefs heap ! i))))
             (Percentage_getValue (percentage (heap ! (sortedRefs heap ! (i - 1)))))"
      using rank_same_iff by blast
  qed
next
  show "new_Result ''sample'' ''Sample'' [Subject ''Math'' (Fin 100) False] fourStudents =
       Inr (sampleResult fourStudents)"
    by (rule fourStudents_constructed)
  show "ranksOf (calculateRanks (sampleResult fourStudents)) =
       [(Fin 95, Some 1), (Fin 88, Some 2), (Fin 82, Some 3), (Fin 78, Some 4)]"
    by (rule fourStudents_ranks)
qed

lemma tied_valid:
  "studentResults (sampleResult tiedStudents) \<noteq> [] \<and>
   (\<forall>sr\<in>set (getStudentResults (sampleResult tiedStudents)). valid_StudentResult sr)"
  by (simp add: sampleResult_def tiedStudents_def getStudentResults_def Map_values_def
      sampleStudentResult_def valid_StudentResult_def validatePercentage_def validateMarks_def
      isNaN_def js_gt_def)

theorem C3_calculateRanks_rule_witness:
  "studentResults (sampleResult tiedStudents) \<noteq> []
   \<and> list_all valid_StudentResult (getStudentResults (sampleResult tiedStudents))
   \<and> sortedRefs (getStudentResults (sampleResult tiedStudents)) = [0, 1, 2]
   \<and> rank (getStudentResults (calculateRanks (sampleResult tiedStudents)) ! 0) = Some 1
   \<and> rank (getStudentResults (calculateRanks (sampleResult tiedStudents)) ! 1) =
       rank (getStudentResults (calculateRanks (sampleResult tiedStudents)) ! 0)
   \<and> rank (getStudentResults (calculateRanks (sampleResult tiedStudents)) ! 2) = Some 3"
proof -
  let ?r = "sampleResult tiedStudents"
  have order: "sortedRefs (getStudentResults ?r) = [0, 1, 2]" by code_simp
  have len: "length (getStudentResults ?r) = 3" by code_simp
  have p1: "js_eq (Percentage_getValue (percentage (getStudentResults ?r ! 1)))
                  (Percentage_getValue (percentage (getStudentResults ?r ! 0)))"
    by code_simp
  have p2: "\<not> js_eq (Percentage_getValue (percentage (getStudentResults ?r ! 2)))
                  (Percentage_getValue (percentage (getStudentResults ?r ! 1)))"
    by code_simp
  note g = C3_calculateRanks_rule [THEN conjunct1, THEN spec, THEN mp, OF tied_valid,
      unfolded Let_def order len]
  have first: "rank (getStudentResults (calculateRanks ?r) ! 0) = Some 1"
    using g by simp
  have step: "\<forall>i. 0 < i \<and> i < 3 \<longrightarrow>
      rank (getStudentResults (calculateRanks ?r) ! ([0, 1, 2] ! i)) =
        (if js_eq (Percentage_getValue (percentage (getStudentResults ?r ! ([0, 1, 2] ! i))))
                  (Percentage_getValue (percentage (getStudentResults ?r ! ([0, 1, 2] ! (i - 1)))))
         then rank (getStudentResults (calculateRanks ?r) ! ([0, 1, 2] ! (i - 1))) else Some (i + 1))"
    using g by blast
  have second: "rank (getStudentResults (calculateRanks ?r) ! 1) =
       rank (getStudentResults (calculateRanks ?r) ! 0)"
    using step [THEN spec, of 1] p1 by simp
  have third: "rank (getStudentResults (calculateRanks ?r) ! 2) = Some 3"
    using step [THEN spec, of 2] p2 by simp
  show ?thesis using tied_valid order first second third by (simp add: list_all_iff)
qed

text \<open>
  Claim C2 as stated fails: for percentages 85, 85, 75 the ranks are not 2, 2, 1.
\<close>

theorem C2_tied_ranks_counterexample:
  "new_Result ''sample'' ''Sample'' [Subject ''Math'' (Fin 100) False] tiedStudents =
     Inr (sampleResult tiedStudents)
   \<and> ranksOf (calculateRanks (sampleResult tiedStudents)) \<noteq>
       [(Fin 85, Some 2), (Fin 85, Some 2), (Fin 75, Some 1)]"
  by code_simp

text \<open>
  Claim C2, amended. For three students with percentages 85, 85, 75,
  \<^verbatim>\<open>calculateRanks\<close> assigns ranks 1, 1, 3: the tied pair is the highest and shares
  rank 1, the third student gets its position 3. Ranks 2, 2, 1 are what percentages
  80, 80, 85 receive.
\<close>

theorem C2_tied_ranks_amended:
  "ranksOf (calculateRanks (sampleResult tiedStudents)) =
     [(Fin 85, Some 1), (Fin 85, Some 1), (Fin 75, Some 3)]
   \<and> ranksOf (calculateRanks (sampleResult
        [sampleStudentResult ''Student A'' ''001'' 80, sampleStudentResult ''Student B'' ''002'' 80,
         sampleStudentResult ''Student C'' ''003'' 85])) =
     [(Fin 80, Some 2), (Fin 80, Some 2), (Fin 85, Some 1)]"
  by code_simp

section \<open>Properties of addStudentResult and fromRawData\<close>

lemma Map_get_Map_set_same: "Map_get (Map_set k v m) k = Some v"
  by (induction m) (auto simp: Map_get_def)

lemma Map_get_Map_set_other: "k' \<noteq> k \<Longrightarrow> Map_get (Map_set k v m) k' = Map_get m k'"
  by (induction m) (auto simp: Map_get_def)

lemma Map_keys_Map_set:
  "Map_keys (Map_set k v m) = (if k \<in> set (Map_keys m) then Map_keys m else Map_keys m @ [k])"
  by (induction m) (force simp: Map_keys_def)+

lemma length_Map_set:
  "length (Map_set k v m) = (if k \<in> set (Map_keys m) then length m else length m + 1)"
  by (induction m) (force simp: Map_keys_def)+

lemma set_Map_values_Map_set: "set (Map_values (Map_set k v m)) \<subseteq> insert v (set (Map_values m))"
  by (induction m) (force simp: Map_values_def split: if_splits)+

lemma validateStudentResult_ok:
  "(validateStudentResult names sr = Inr ()) = list_all (\<lambda>n. n \<in> set (Map_keys (marks sr))) names"
  by (induction names) auto

lemma validateStudentResult_covers:
  "(validateStudentResult (map Subject_getName subjs) sr = Inr ()) = coversSubjects subjs sr"
  by (simp add: validateStudentResult_ok coversSubjects_def list_all_iff)

lemma validateStudentResult_cases:
  "validateStudentResult names sr = Inr () \<or> isl_error (validateStudentResult names sr)"
  by (induction names) (auto simp: isl_error_def)

lemma addStudentResult_covered:
  "coversSubjects (subjects r) sr \<Longrightarrow>
   addStudentResult r sr =
     Inr (r\<lparr>studentResults :=
            Map_set (Student_getRollNumber (student sr)) sr (studentResults r)\<rparr>)"
  by (simp add: addStudentResult_def validateStudentResult_covers [THEN iffD2])

lemma addStudentResult_missing:
  "\<not> coversSubjects (subjects r) sr \<Longrightarrow> isl_error (addStudentResult r sr)"
  using validateStudentResult_cases [of "map Subject_getName (subjects r)" sr]
  by (auto simp: addStudentResult_def validateStudentResult_covers isl_error_def split: sum.splits)

lemma addStudentResult_Inr:
  "addStudentResult r sr = Inr r' \<Longrightarrow>
   coversSubjects (subjects r) sr \<and>
   r' = r\<lparr>studentResults := Map_set (Student_getRollNumber (student sr)) sr (studentResults r)\<rparr>"
  using addStudentResult_missing [of r sr] addStudentResult_covered [of r sr]
  by (cases "coversSubjects (subjects r) sr") (auto simp: isl_error_def)

lemma addStudentResult_allCovered:
  assumes "allCovered r" "addStudentResult r sr = Inr r'"
  shows "allCovered r' \<and> subjects r' = subjects r"
proof -
  from assms(2) have c: "coversSubjects (subjects r) sr"
    and r': "r' = r\<lparr>studentResults := Map_set (Student_getRollNumber (student sr)) sr (studentResults r)\<rparr>"
    using addStudentResult_Inr by blast+
  have "set (getStudentResults r') \<subseteq> insert sr (set (getStudentResults r))"
    using set_Map_values_Map_set by (simp add: r' getStudentResults_def)
  then show ?thesis using assms(1) c by (auto simp: allCovered_def list_all_iff r')
qed

lemma addAll_allCovered:
  "allCovered r \<Longrightarrow> addAll r xs = Inr r' \<Longrightarrow> allCovered r' \<and> subjects r' = subjects r"
proof (induction xs arbitrary: r)
  case Nil
  then show ?case by simp
next
  case (Cons x xs)
  then obtain r1 where r1: "addStudentResult r x = Inr r1" "addAll r1 xs = Inr r'"
    by (auto split: sum.splits)
  have "allCovered r1 \<and> subjects r1 = subjects r"
    using addStudentResult_allCovered [OF Cons.prems(1) r1(1)] .
  then show ?case using Cons.IH [OF _ r1(2)] by simp
qed

lemma new_Result_allCovered:
  assumes "new_Result ident ttl subjs results = Inr r"
  shows "allCovered r \<and> subjects r = subjs"
proof -
  let ?r0 = "\<lparr>resultId = ident, title = trim ttl, subjects = subjs, studentResults = [],
                  maxTotalMarks = foldl (\<lambda>sum subject. js_add sum (Subject_getMaxMarks subject))
                                    (Fin 0) subjs\<rparr>"
  have a: "addAll ?r0 results = Inr r"
    using assms by (simp add: new_Result_def split: sum.splits)
  have "allCovered ?r0" by (simp add: allCovered_def getStudentResults_def Map_values_def)
  from addAll_allCovered [OF this a] show ?thesis by simp
qed

lemma calculateRanks_allCovered:
  assumes "allCovered r"
  shows "allCovered (calculateRanks r)"
proof -
  let ?heap = "getStudentResults r"
  have subj: "subjects (calculateRanks r) = subjects r"
    by (simp add: calculateRanks_alt)
  have "coversSubjects (subjects r) sr" if "sr \<in> set (ranked ?heap)" for sr
  proof -
    from that obtain a where a: "a < length ?heap" "sr = ranked ?heap ! a"
      by (auto simp: in_set_conv_nth ranked_length)
    then obtain k where "sr = (?heap ! a)\<lparr>rank := Some k\<rparr>"
      using ranked_only_rank by blast
    moreover have "coversSubjects (subjects r) (?heap ! a)"
      using assms a(1) by (simp add: allCovered_def list_all_length)
    ultimately show ?thesis by (simp add: coversSubjects_def)
  qed
  then show ?thesis
    by (simp add: allCovered_def calculateRanks_values subj list_all_iff)
qed

lemma markFor_Absent:
  "getProperty (raw_marks sd) (Subject_getName subject) = Absent \<Longrightarrow>
   markFor sd subject = Inr (Marks (Fin 0))"
  by (simp add: markFor_def new_Marks_def validateMarks_def isNaN_def js_gt_def)

lemma processSubjects_keys:
  "processSubjects sd subjs m t = Inr (m', t') \<Longrightarrow>
   set (Map_keys m') = set (Map_keys m) \<union> Subject_getName ` set subjs"
proof (induction subjs arbitrary: m t)
  case Nil
  then show ?case by simp
next
  case (Cons subject rest)
  then obtain mark where mk: "markFor sd subject = Inr mark"
    and rest: "processSubjects sd rest (Map_set (Subject_getName subject) mark m)
        (js_add t (Marks_getValue mark)) = Inr (m', t')"
    by (auto split: sum.splits)
  show ?case using Cons.IH [OF rest] by (auto simp: Map_keys_Map_set)
qed

lemma processSubjects_others:
  "processSubjects sd subjs m t = Inr (m', t') \<Longrightarrow> k \<notin> Subject_getName ` set subjs \<Longrightarrow>
   Map_get m' k = Map_get m k"
proof (induction subjs arbitrary: m t)
  case Nil
  then show ?case by simp
next
  case (Cons subject rest)
  then obtain mark where mk: "markFor sd subject = Inr mark"
    and rest: "processSubjects sd rest (Map_set (Subject_getName subject) mark m)
        (js_add t (Marks_getValue mark)) = Inr (m', t')"
    by (auto split: sum.splits)
  show ?case using Cons.IH [OF rest] Cons.prems(2) by (simp add: Map_get_Map_set_other)
qed

lemma processSubjects_Absent:
  "processSubjects sd subjs m t = Inr (m', t') \<Longrightarrow> subject \<in> set subjs \<Longrightarrow>
   getProperty (raw_marks sd) (Subject_getName subject) = Absent \<Longrightarrow>
   Map_get m' (Subject_getName subject) = Some (Marks (Fin 0))"
proof (induction subjs arbitrary: m t subject)
  case Nil
  then show ?case by simp
next
  case (Cons s rest)
  then obtain mark where mk: "markFor sd s = Inr mark"
    and rest: "processSubjects sd rest (Map_set (Subject_getName s) mark m)
        (js_add t (Marks_getValue mark)) = Inr (m', t')"
    by (auto split: sum.splits)
  show ?case
  proof (cases "Subject_getName subject \<in> Subject_getName ` set rest")
    case True
    then obtain s' where s': "s' \<in> set rest" "Subject_getName s' = Subject_getName subject"
      by auto
    then show ?thesis using Cons.IH [OF rest s'(1)] Cons.prems(3) by simp
  next
    case False
    then have same: "Subject_getName s = Subject_getName subject"
      using Cons.prems(2) by auto
    then have "mark = Marks (Fin 0)"
      using mk markFor_Absent [of sd s] Cons.prems(3) by simp
    then show ?thesis
      using processSubjects_others [OF rest False] same by (simp add: Map_get_Map_set_same)
  qed
qed

lemma buildStudentResult_marks:
  assumes "buildStudentResult subjs sd = Inr sr"
  shows "\<exists>t. processSubjects sd subjs [] (Fin 0) = Inr (marks sr, t)"
  using assms by (auto simp: buildStudentResult_def split: sum.splits)

lemma buildStudentResult_covers:
  assumes "buildStudentResult subjs sd = Inr sr"
  shows "coversSubjects subjs sr"
proof -
  obtain t where "processSubjects sd subjs [] (Fin 0) = Inr (marks sr, t)"
    using buildStudentResult_marks [OF assms] by blast
  from processSubjects_keys [OF this] show ?thesis
    by (auto simp: coversSubjects_def list_all_iff)
qed

lemma buildStudentResult_Absent:
  assumes "buildStudentResult subjs sd = Inr sr" "subject \<in> set subjs"
    "getProperty (raw_marks sd) (Subject_getName subject) = Absent"
  shows "Map_get (marks sr) (Subject_getName subject) = Some (Marks (Fin 0))"
proof -
  obtain t where "processSubjects sd subjs [] (Fin 0) = Inr (marks sr, t)"
    using buildStudentResult_marks [OF assms(1)] by blast
  from processSubjects_Absent [OF this assms(2,3)] show ?thesis .
qed

lemma Result_fromRawData_allCovered:
  assumes "Result_fromRawData d = Inr r"
  shows "allCovered r"
proof -
  obtain subjs results r0 where
    "new_Result (raw_id d) (raw_title d) subjs results = Inr r0" "r = calculateRanks r0"
    using assms by (auto simp: Result_fromRawData_def split: sum.splits)
  then show ?thesis
    using new_Result_allCovered calculateRanks_allCovered by blast
qed

lemma not_error_Inr: "\<not> isl_error x \<Longrightarrow> \<exists>r. x = Inr r"
  by (cases x) (auto simp: isl_error_def)

lemma getProperty_append:
  "getProperty obj n = Absent \<Longrightarrow>
   getProperty (obj @ [(n, v)]) k = (if k = n then Own v else getProperty obj k)"
  by (auto simp: getProperty_def map_add_def split: option.splits if_splits)

lemma markFor_withDefaultMark: "markFor (withDefaultMark n sd) subject = markFor sd subject"
proof (cases "getProperty (raw_marks sd) n = Absent")
  case True
  then show ?thesis
    by (simp add: withDefaultMark_def markFor_def getProperty_append)
next
  case False
  then show ?thesis by (simp add: withDefaultMark_def)
qed

lemma processSubjects_withDefaultMark:
  "processSubjects (withDefaultMark n sd) subjs m t = processSubjects sd subjs m t"
  by (induction subjs arbitrary: m t) (simp_all add: markFor_withDefaultMark split: sum.splits)

lemma Student_fromRawData_withDefaultMark:
  "Student_fromRawData (withDefaultMark n sd) = Student_fromRawData sd"
  by (simp add: Student_fromRawData_def withDefaultMark_def)

lemma buildStudentResult_withDefaultMark:
  "buildStudentResult subjs (withDefaultMark n sd) = buildStudentResult subjs sd"
  by (simp add: buildStudentResult_def processSubjects_withDefaultMark
      Student_fromRawData_withDefaultMark cong: sum.case_cong)

lemma mapE_map: "mapE f (map g xs) = mapE (\<lambda>x. f (g x)) xs"
  by (induction xs) (simp_all split: sum.splits)

lemma Result_fromRawData_withDefaultMark:
  "Result_fromRawData (d\<lparr>raw_studentData := map (withDefaultMark n) (raw_studentData d)\<rparr>) =
     Result_fromRawData d"
  by (simp add: Result_fromRawData_def mapE_map buildStudentResult_withDefaultMark
      cong: sum.case_cong)

lemma markFor_Inherited:
  "getProperty (raw_marks sd) (Subject_getName subject) = Inherited \<Longrightarrow>
   markFor sd subject = Inl (Error ''Marks must be a number'')"
  by (simp add: markFor_def)

text \<open>
  Claim C1 as stated fails: the student of the sample data has no marks entry for
  Science, and \<^verbatim>\<open>fromRawData\<close> returns a Result in which that mark is 0.
\<close>

theorem C1_missing_marks_counterexample:
  "raw_subjects missingScience = [''Math'', ''Science'']
   \<and> map (\<lambda>sd. getProperty (raw_marks sd) ''Science'') (raw_studentData missingScience) = [Absent]
   \<and> \<not> isl_error (Result_fromRawData missingScience)
   \<and> map_sum id (\<lambda>r. map marks (getStudentResults r)) (Result_fromRawData missingScience) =
       Inr [[(''Math'', Marks (Fin 80)), (''Science'', Marks (Fin 0))]]"
  by code_simp

text \<open>
  Claim C1, amended. \<^verbatim>\<open>fromRawData\<close> does not fail because a declared subject has no
  marks entry for a student. When the marks object has no entry for the subject and
  inherits none, the mark of the subject is built without a failure and is 0; the
  outcome for the student, and that of \<^verbatim>\<open>fromRawData\<close> for the whole input, is the
  outcome for the same data with the explicit entry 0, whether that is a failure or
  a result. A subject whose name is the name of a member of \<^verbatim>\<open>Object.prototype\<close>
  (such as \<^verbatim>\<open>toString\<close> or \<^verbatim>\<open>constructor\<close>) is the exception: without an entry of its
  own the inherited member is read, which is not a number.

  Each StudentResult that \<^verbatim>\<open>fromRawData\<close> builds has an entry for every subject. Every
  StudentResult held by a Result (from \<^verbatim>\<open>fromRawData\<close>, from the constructor, after
  \<^verbatim>\<open>addStudentResult\<close>, after \<^verbatim>\<open>calculateRanks\<close>) carries marks for all of the Result's
  Subjects, and \<^verbatim>\<open>addStudentResult\<close> throws for a StudentResult whose marks map lacks
  a subject.
\<close>

theorem C1_marks_cover_subjects:
  "(getProperty (raw_marks sd) (Subject_getName subject) = Absent \<longrightarrow>
      markFor sd subject = Inr (Marks (Fin 0)))
   \<and> buildStudentResult subjs (withDefaultMark n sd) = buildStudentResult subjs sd
   \<and> Result_fromRawData (d\<lparr>raw_studentData := map (withDefaultMark n) (raw_studentData d)\<rparr>) =
       Result_fromRawData d
   \<and> (getProperty (raw_marks sd) (Subject_getName subject) = Inherited \<longrightarrow>
        markFor sd subject = Inl (Error ''Marks must be a number''))
   \<and> (buildStudentResult subjs sd = Inr sr \<longrightarrow>
      coversSubjects subjs sr \<and>
      (\<forall>subject\<in>set subjs. getProperty (raw_marks sd) (Subject_getName subject) = Absent \<longrightarrow>
         Map_get (marks sr) (Subject_getName subject) = Some (Marks (Fin 0))))
   \<and> (Result_fromRawData d = Inr r \<longrightarrow> allCovered r)
   \<and> (new_Result ident ttl subjs results = Inr r \<longrightarrow> allCovered r)
   \<and> (allCovered r \<and> addStudentResult r sr = Inr r' \<longrightarrow> allCovered r')
   \<and> (allCovered r \<longrightarrow> allCovered (calculateRanks r))
   \<and> (\<not> coversSubjects (subjects r) sr \<longrightarrow> isl_error (addStudentResult r sr))"
proof (intro conjI impI ballI)
  assume "getProperty (raw_marks sd) (Subject_getName subject) = Absent"
  then show "markFor sd subject = Inr (Marks (Fin 0))" by (rule markFor_Absent)
next
  show "buildStudentResult subjs (withDefaultMark n sd) = buildStudentResult subjs sd"
    by (rule buildStudentResult_withDefaultMark)
next
  show "Result_fromRawData (d\<lparr>raw_studentData := map (withDefaultMark n) (raw_studentData d)\<rparr>) =
       Result_fromRawData d"
    by (rule Result_fromRawData_withDefaultMark)
next
  assume "getProperty (raw_marks sd) (Subject_getName subject) = Inherited"
  then show "markFor sd subject = Inl (Error ''Marks must be a number'')"
    by (rule markFor_Inherited)
next
  assume "buildStudentResult subjs sd = Inr sr"
  then show "coversSubjects subjs sr" by (rule buildStudentResult_covers)
next
  fix subject
  assume "buildStudentResult subjs sd = Inr sr" "subject \<in> set subjs"
    "getProperty (raw_marks sd) (Subject_getName subject) = Absent"
  then show "Map_get (marks sr) (Subject_getName subject) = Some (Marks (Fin 0))"
    by (rule buildStudentResult_Absent)
next
  assume "Result_fromRawData d = Inr r"
  then show "allCovered r" by (rule Result_fromRawData_allCovered)
next
  assume "new_Result ident ttl subjs results = Inr r"
  then show "allCovered r" using new_Result_allCovered by blast
next
  assume "allCovered r \<and> addStudentResult r sr = Inr r'"
  then show "allCovered r'" using addStudentResult_allCovered by blast
next
  assume "allCovered r"
  then show "allCovered (calculateRanks r)" by (rule calculateRanks_allCovered)
next
  assume "\<not> coversSubjects (subjects r) sr"
  then show "isl_error (addStudentResult r sr)" by (rule addStudentResult_missing)
qed

theorem C1_marks_cover_subjects_witness:
  "getProperty (raw_marks (hd (raw_studentData missingScience)))
       (Subject_getName (Subject ''Science'' (Fin 100) False)) = Absent
   \<and> markFor (hd (raw_studentData missingScience)) (Subject ''Science'' (Fin 100) False) =
       Inr (Marks (Fin 0))
   \<and> raw_marks (withDefaultMark ''Science'' (hd (raw_studentData missingScience))) =
       [(''Math'', MNum (Fin 80)), (''Science'', MNum (Fin 0))]
   \<and> buildStudentResult [Subject ''Math'' (Fin 100) False, Subject ''Science'' (Fin 100) False]
         (withDefaultMark ''Science'' (hd (raw_studentData missingScience))) =
       buildStudentResult [Subject ''Math'' (Fin 100) False, Subject ''Science'' (Fin 100) False]
         (hd (raw_studentData missingScience))
   \<and> getProperty (raw_marks (hd (raw_studentData toStringSubject)))
       (Subject_getName (Subject ''toString'' (Fin 100) False)) = Inherited
   \<and> markFor (hd (raw_studentData toStringSubject)) (Subject ''toString'' (Fin 100) False) =
       Inl (Error ''Marks must be a number'')
   \<and> (\<exists>r. Result_fromRawData missingScience = Inr r \<and> allCovered r)
   \<and> (\<exists>sr. buildStudentResult [Subject ''Math'' (Fin 100) False, Subject ''Science'' (Fin 100) False]
             (hd (raw_studentData missingScience)) = Inr sr
          \<and> coversSubjects [Subject ''Math'' (Fin 100) False, Subject ''Science'' (Fin 100) False] sr
          \<and> Map_get (marks sr) ''Science'' = Some (Marks (Fin 0)))
   \<and> new_Result ''sample'' ''Sample'' [Subject ''Math'' (Fin 100) False] tiedStudents =
       Inr (sampleResult tiedStudents)
   \<and> allCovered (sampleResult tiedStudents)
   \<and> addStudentResult (sampleResult tiedStudents) (sampleStudentResult ''Student D'' ''004'' 60) =
       Inr (sampleResult (tiedStudents @ [sampleStudentResult ''Student D'' ''004'' 60]))
   \<and> allCovered (sampleResult (tiedStudents @ [sampleStudentResult ''Student D'' ''004'' 60]))
   \<and> allCovered (calculateRanks (sampleResult tiedStudents))
   \<and> \<not> coversSubjects (subjects (sampleResult tiedStudents))
         ((sampleStudentResult ''Student D'' ''004'' 60)\<lparr>marks := []\<rparr>)
   \<and> isl_error (addStudentResult (sampleResult tiedStudents)
         ((sampleStudentResult ''Student D'' ''004'' 60)\<lparr>marks := []\<rparr>))"
proof -
  let ?subjs = "[Subject ''Math'' (Fin 100) False, Subject ''Science'' (Fin 100) False]"
  let ?d = "sampleStudentResult ''Student D'' ''004'' 60"
  let ?sd = "hd (raw_studentData missingScience)"
  let ?td = "hd (raw_studentData toStringSubject)"
  have absent: "getProperty (raw_marks ?sd)
      (Subject_getName (Subject ''Science'' (Fin 100) False)) = Absent"
    by code_simp
  have m0: "markFor ?sd (Subject ''Science'' (Fin 100) False) = Inr (Marks (Fin 0))"
    using C1_marks_cover_subjects [where sd = "?sd"
        and subject = "Subject ''Science'' (Fin 100) False"] absent
    by blast
  have w: "raw_marks (withDefaultMark ''Science'' ?sd) =
       [(''Math'', MNum (Fin 80)), (''Science'', MNum (Fin 0))]"
    by code_simp
  have w': "buildStudentResult ?subjs (withDefaultMark ''Science'' ?sd) =
       buildStudentResult ?subjs ?sd"
    using C1_marks_cover_subjects [where subjs = "?subjs" and n = "''Science''" and sd = "?sd"]
    by blast
  have inherited: "getProperty (raw_marks ?td)
      (Subject_getName (Subject ''toString'' (Fin 100) False)) = Inherited"
    by code_simp
  have m1: "markFor ?td (Subject ''toString'' (Fin 100) False) =
      Inl (Error ''Marks must be a number'')"
    using C1_marks_cover_subjects [where sd = "?td"
        and subject = "Subject ''toString'' (Fin 100) False"] inherited
    by blast
  have "\<not> isl_error (Result_fromRawData missingScience)" by code_simp
  then obtain r where r: "Result_fromRawData missingScience = Inr r"
    using not_error_Inr by blast
  have a: "\<exists>r. Result_fromRawData missingScience = Inr r \<and> allCovered r"
    using C1_marks_cover_subjects [where d = missingScience and r = r] r by blast
  have "\<not> isl_error (buildStudentResult ?subjs ?sd)"
    by code_simp
  then obtain sr where sr: "buildStudentResult ?subjs ?sd = Inr sr"
    using not_error_Inr by blast
  have b: "coversSubjects ?subjs sr \<and> Map_get (marks sr) ''Science'' = Some (Marks (Fin 0))"
    using C1_marks_cover_subjects [where subjs = "?subjs" and sd = "?sd" and sr = sr] sr absent
    by auto
  have c: "new_Result ''sample'' ''Sample'' [Subject ''Math'' (Fin 100) False] tiedStudents =
       Inr (sampleResult tiedStudents)"
    by code_simp
  have c': "allCovered (sampleResult tiedStudents)"
    using C1_marks_cover_subjects [where r = "sampleResult tiedStudents" and ident = "''sample''"
        and ttl = "''Sample''" and subjs = "[Subject ''Math'' (Fin 100) False]"
        and results = tiedStudents] c
    by blast
  have e: "addStudentResult (sampleResult tiedStudents) ?d = Inr (sampleResult (tiedStudents @ [?d]))"
    by code_simp
  have e': "allCovered (sampleResult (tiedStudents @ [?d]))"
    using C1_marks_cover_subjects [where r = "sampleResult tiedStudents" and sr = "?d"
        and r' = "sampleResult (tiedStudents @ [?d])"] c' e
    by blast
  have f: "allCovered (calculateRanks (sampleResult tiedStudents))"
    using C1_marks_cover_subjects [where r = "sampleResult tiedStudents"] c' by blast
  have g: "\<not> coversSubjects (subjects (sampleResult tiedStudents)) (?d\<lparr>marks := []\<rparr>)"
    by code_simp
  have g': "isl_error (addStudentResult (sampleResult tiedStudents) (?d\<lparr>marks := []\<rparr>))"
    using C1_marks_cover_subjects [where r = "sampleResult tiedStudents"
        and sr = "?d\<lparr>marks := []\<rparr>"] g
    by blast
  show ?thesis using absent m0 w w' inherited m1 a b sr c c' e e' f g g' by blast
qed

text \<open>
  Claim C10. \<^verbatim>\<open>addStudentResult\<close> stores a StudentResult that covers the subjects
  under its student's roll number and nothing else changes: when the exact roll number
  is already a key the entry is replaced without an error and the student count is
  unchanged, otherwise an entry is appended. An entry whose roll number differs from
  the new one only in letter case is a different key and stays. The roll number of
  a Student is the trimmed constructor argument.
\<close>

theorem C10_addStudentResult_exact_key:
  "(coversSubjects (subjects r) s \<longrightarrow>
      (\<exists>r'. addStudentResult r s = Inr r' \<and>
         Map_get (studentResults r') (Student_getRollNumber (student s)) = Some s \<and>
         (\<forall>k. k \<noteq> Student_getRollNumber (student s) \<longrightarrow>
            Map_get (studentResults r') k = Map_get (studentResults r) k) \<and>
         (if Student_getRollNumber (student s) \<in> set (Map_keys (studentResults r))
          then getStudentCount r' = getStudentCount r \<and>
               Map_keys (studentResults r') = Map_keys (studentResults r)
          else getStudentCount r' = getStudentCount r + 1 \<and>
               Map_keys (studentResults r') =
                 Map_keys (studentResults r) @ [Student_getRollNumber (student s)])))
   \<and> (coversSubjects (subjects r) s \<and> Map_get (studentResults r) k = Some t \<and>
       k \<noteq> Student_getRollNumber (student s) \<and>
       toLowerCase k = toLowerCase (Student_getRollNumber (student s)) \<longrightarrow>
      (\<exists>r'. addStudentResult r s = Inr r' \<and> Map_get (studentResults r') k = Some t \<and>
         Map_get (studentResults r') (Student_getRollNumber (student s)) = Some s))
   \<and> (new_Student name rollNumber className sect = Inr st \<longrightarrow>
      Student_getRollNumber st = trim rollNumber)"
proof (intro conjI impI)
  assume c: "coversSubjects (subjects r) s"
  let ?k = "Student_getRollNumber (student s)"
  let ?r' = "r\<lparr>studentResults := Map_set ?k s (studentResults r)\<rparr>"
  have "addStudentResult r s = Inr ?r'" using c by (rule addStudentResult_covered)
  moreover have "Map_get (studentResults ?r') ?k = Some s" by (simp add: Map_get_Map_set_same)
  moreover have "\<forall>k. k \<noteq> ?k \<longrightarrow> Map_get (studentResults ?r') k = Map_get (studentResults r) k"
    by (simp add: Map_get_Map_set_other)
  moreover have "if ?k \<in> set (Map_keys (studentResults r))
          then getStudentCount ?r' = getStudentCount r \<and>
               Map_keys (studentResults ?r') = Map_keys (studentResults r)
          else getStudentCount ?r' = getStudentCount r + 1 \<and>
               Map_keys (studentResults ?r') = Map_keys (studentResults r) @ [?k]"
    by (simp add: getStudentCount_def length_Map_set Map_keys_Map_set)
  ultimately show "\<exists>r'. addStudentResult r s = Inr r' \<and>
         Map_get (studentResults r') ?k = Some s \<and>
         (\<forall>k. k \<noteq> ?k \<longrightarrow> Map_get (studentResults r') k = Map_get (studentResults r) k) \<and>
         (if ?k \<in> set (Map_keys (studentResults r))
          then getStudentCount r' = getStudentCount r \<and>
               Map_keys (studentResults r') = Map_keys (studentResults r)
          else getStudentCount r' = getStudentCount r + 1 \<and>
               Map_keys (studentResults r') = Map_keys (studentResults r) @ [?k])"
    by blast
next
  assume h: "coversSubjects (subjects r) s \<and> Map_get (studentResults r) k = Some t \<and>
       k \<noteq> Student_getRollNumber (student s) \<and>
       toLowerCase k = toLowerCase (Student_getRollNumber (student s))"
  let ?k = "Student_getRollNumber (student s)"
  let ?r' = "r\<lparr>studentResults := Map_set ?k s (studentResults r)\<rparr>"
  have "addStudentResult r s = Inr ?r'" using h addStudentResult_covered by blast
  moreover have "Map_get (studentResults ?r') k = Some t"
    using h by (simp add: Map_get_Map_set_other)
  moreover have "Map_get (studentResults ?r') ?k = Some s" by (simp add: Map_get_Map_set_same)
  ultimately show "\<exists>r'. addStudentResult r s = Inr r' \<and> Map_get (studentResults r') k = Some t \<and>
         Map_get (studentResults r') ?k = Some s"
    by blast
next
  assume "new_Student name rollNumber className sect = Inr st"
  then show "Student_getRollNumber st = trim rollNumber"
    by (auto simp: new_Student_def split: sum.splits)
qed

theorem C10_addStudentResult_exact_key_witness:
  "coversSubjects (subjects (sampleResult [sampleStudentResult ''Student A'' ''A1'' 80]))
     (sampleStudentResult ''Student B'' ''A1'' 90)
   \<and> addStudentResult (sampleResult [sampleStudentResult ''Student A'' ''A1'' 80])
        (sampleStudentResult ''Student B'' ''A1'' 90) =
       Inr (sampleResult [sampleStudentResult ''Student B'' ''A1'' 90])
   \<and> getStudentCount (sampleResult [sampleStudentResult ''Student B'' ''A1'' 90]) =
       getStudentCount (sampleResult [sampleStudentResult ''Student A'' ''A1'' 80])
   \<and> toLowerCase ''A1'' = toLowerCase ''a1''
   \<and> addStudentResult (sampleResult [sampleStudentResult ''Student A'' ''A1'' 80])
        (sampleStudentResult ''Student C'' ''a1'' 70) =
       Inr (sampleResult [sampleStudentResult ''Student A'' ''A1'' 80,
                          sampleStudentResult ''Student C'' ''a1'' 70])
   \<and> Map_get (studentResults (sampleResult [sampleStudentResult ''Student A'' ''A1'' 80,
                          sampleStudentResult ''Student C'' ''a1'' 70])) ''A1'' =
       Some (sampleStudentResult ''Student A'' ''A1'' 80)
   \<and> Map_get (studentResults (sampleResult [sampleStudentResult ''Student A'' ''A1'' 80,
                          sampleStudentResult ''Student C'' ''a1'' 70])) ''a1'' =
       Some (sampleStudentResult ''Student C'' ''a1'' 70)
   \<and> new_Student ''Student A'' '' A1  '' None None = Inr (Student ''Student A'' ''A1'' None None)
   \<and> Student_getRollNumber (Student ''Student A'' ''A1'' None None) = trim '' A1  ''"
proof -
  let ?a = "sampleStudentResult ''Student A'' ''A1'' 80"
  let ?b = "sampleStudentResult ''Student B'' ''A1'' 90"
  let ?c = "sampleStudentResult ''Student C'' ''a1'' 70"
  let ?r = "sampleResult [?a]"
  have cb: "coversSubjects (subjects ?r) ?b" by code_simp
  have cc: "coversSubjects (subjects ?r) ?c" by code_simp
  have kb: "Student_getRollNumber (student ?b) = ''A1''" by code_simp
  have kc: "Student_getRollNumber (student ?c) = ''a1''" by code_simp
  have keys: "Map_keys (studentResults ?r) = [''A1'']" by code_simp
  have addb: "addStudentResult ?r ?b = Inr (sampleResult [?b])" by code_simp
  have addc: "addStudentResult ?r ?c = Inr (sampleResult [?a, ?c])" by code_simp
  have geta: "Map_get (studentResults ?r) ''A1'' = Some ?a" by code_simp
  have low: "toLowerCase ''A1'' = toLowerCase ''a1''" by code_simp
  have st: "new_Student ''Student A'' '' A1  '' None None = Inr (Student ''Student A'' ''A1'' None None)"
    by code_simp
  have count: "getStudentCount (sampleResult [?b]) = getStudentCount ?r"
    using C10_addStudentResult_exact_key [where r = "?r" and s = "?b", THEN conjunct1] cb addb
    by (auto simp: kb keys)
  have both: "Map_get (studentResults (sampleResult [?a, ?c])) ''A1'' = Some ?a \<and>
              Map_get (studentResults (sampleResult [?a, ?c])) ''a1'' = Some ?c"
    using C10_addStudentResult_exact_key [where r = "?r" and s = "?c" and k = "''A1''" and t = "?a",
        THEN conjunct2, THEN conjunct1] cc geta low addc
    by (auto simp: kc)
  have trimmed: "Student_getRollNumber (Student ''Student A'' ''A1'' None None) = trim '' A1  ''"
    using C10_addStudentResult_exact_key [where name = "''Student A''" and rollNumber = "'' A1  ''"
        and className = None and sect = None and st = "Student ''Student A'' ''A1'' None None",
        THEN conjunct2, THEN conjunct2] st
    by blast
  show ?thesis using cb addb count low addc both st trimmed by blast
qed

section \<open>Properties of calculateMarksDistribution\<close>

lemma default_keys:
  "rangeKey fmt defaultRanges 0 = ''0-40%''"
  "rangeKey fmt defaultRanges 1 = ''40-60%''"
  "rangeKey fmt defaultRanges 2 = ''60-75%''"
  "rangeKey fmt defaultRanges 3 = ''75-90%''"
  "rangeKey fmt defaultRanges 4 = ''90-100%''"
  by code_simp+

lemma default_indices: "[0..<length defaultRanges - Suc 0] = [0, 1, 2, 3, 4]"
  by (simp add: defaultRanges_def upt_rec)

lemma initDistribution_default:
  "initDistribution fmt defaultRanges =
     [(''0-40%'', Fin 0), (''40-60%'', Fin 0), (''60-75%'', Fin 0), (''75-90%'', Fin 0),
      (''90-100%'', Fin 0)]"
  by (simp add: initDistribution_def default_indices default_keys)

lemma countStudent_default:
  "countStudent fmt defaultRanges
     [(''0-40%'', Fin a), (''40-60%'', Fin b), (''60-75%'', Fin c), (''75-90%'', Fin d),
      (''90-100%'', Fin e)] sr =
     [(''0-40%'', Fin (a + countOf (inBucket 0 40) [sr])),
      (''40-60%'', Fin (b + countOf (inBucket 40 60) [sr])),
      (''60-75%'', Fin (c + countOf (inBucket 60 75) [sr])),
      (''75-90%'', Fin (d + countOf (inBucket 75 90) [sr])),
      (''90-100%'', Fin (e + countOf (inBucket 90 100) [sr] + countOf isHundred [sr]))]"
proof (cases "Percentage_getValue (percentage sr)")
  case NaN
  then show ?thesis
    by (simp add: countStudent_def default_indices js_ge_def js_le_def js_eq_def countOf_def
        inBucket_def isHundred_def)
next
  case NInf
  then show ?thesis
    by (simp add: countStudent_def default_indices defaultRanges_def js_ge_def js_le_def
        js_eq_def countOf_def inBucket_def isHundred_def)
next
  case PInf
  then show ?thesis
    by (simp add: countStudent_def default_indices defaultRanges_def js_ge_def js_le_def
        js_eq_def countOf_def inBucket_def isHundred_def)
next
  case (Fin q)
  have keys: "rangeKey fmt defaultRanges (int (length defaultRanges) - 2) = ''90-100%''"
    using default_keys(5) [of fmt] by (simp add: defaultRanges_def)
  consider "q < 0" | "0 \<le> q" "q < 40" | "40 \<le> q" "q < 60" | "60 \<le> q" "q < 75"
    | "75 \<le> q" "q < 90" | "90 \<le> q" "q < 100" | "q = 100" | "100 < q"
    by linarith
  then show ?thesis
  proof cases
    case 1
    then show ?thesis using Fin
      by (simp add: countStudent_def default_indices js_ge_def js_le_def js_eq_def countOf_def
          inBucket_def isHundred_def defaultRanges_def)
  next
    case 2
    then show ?thesis using Fin default_keys [of fmt]
      by (simp add: countStudent_def default_indices js_ge_def js_le_def js_eq_def countOf_def
          inBucket_def isHundred_def increment_def Map_get_def defaultRanges_def)
  next
    case 3
    then show ?thesis using Fin default_keys [of fmt]
      by (simp add: countStudent_def default_indices js_ge_def js_le_def js_eq_def countOf_def
          inBucket_def isHundred_def increment_def Map_get_def defaultRanges_def)
  next
    case 4
    then show ?thesis using Fin default_keys [of fmt]
      by (simp add: countStudent_def default_indices js_ge_def js_le_def js_eq_def countOf_def
          inBucket_def isHundred_def increment_def Map_get_def defaultRanges_def)
  next
    case 5
    then show ?thesis using Fin default_keys [of fmt]
      by (simp add: countStudent_def default_indices js_ge_def js_le_def js_eq_def countOf_def
          inBucket_def isHundred_def increment_def Map_get_def defaultRanges_def)
  next
    case 6
    then show ?thesis using Fin default_keys [of fmt]
      by (simp add: countStudent_def default_indices js_ge_def js_le_def js_eq_def countOf_def
          inBucket_def isHundred_def increment_def Map_get_def defaultRanges_def)
  next
    case 7
    then show ?thesis using Fin keys
      by (simp add: countStudent_def default_indices js_ge_def js_le_def js_eq_def countOf_def
          inBucket_def isHundred_def increment_def Map_get_def defaultRanges_def)
  next
    case 8
    then show ?thesis using Fin
      by (simp add: countStudent_def default_indices js_ge_def js_le_def js_eq_def countOf_def
          inBucket_def isHundred_def defaultRanges_def)
  qed
qed

lemma countOf_Cons: "countOf P (sr # srs) = countOf P [sr] + countOf P srs"
  by (simp add: countOf_def)

lemma foldl_countStudent_default:
  "foldl (countStudent fmt defaultRanges)
     [(''0-40%'', Fin a), (''40-60%'', Fin b), (''60-75%'', Fin c), (''75-90%'', Fin d),
      (''90-100%'', Fin e)] srs =
     [(''0-40%'', Fin (a + countOf (inBucket 0 40) srs)),
      (''40-60%'', Fin (b + countOf (inBucket 40 60) srs)),
      (''60-75%'', Fin (c + countOf (inBucket 60 75) srs)),
      (''75-90%'', Fin (d + countOf (inBucket 75 90) srs)),
      (''90-100%'', Fin (e + countOf (inBucket 90 100) srs + countOf isHundred srs))]"
proof (induction srs arbitrary: a b c d e)
  case Nil
  then show ?case by (simp add: countOf_def)
next
  case (Cons sr srs)
  have "foldl (countStudent fmt defaultRanges)
     [(''0-40%'', Fin a), (''40-60%'', Fin b), (''60-75%'', Fin c), (''75-90%'', Fin d),
      (''90-100%'', Fin e)] (sr # srs) =
     foldl (countStudent fmt defaultRanges)
       [(''0-40%'', Fin (a + countOf (inBucket 0 40) [sr])),
        (''40-60%'', Fin (b + countOf (inBucket 40 60) [sr])),
        (''60-75%'', Fin (c + countOf (inBucket 60 75) [sr])),
        (''75-90%'', Fin (d + countOf (inBucket 75 90) [sr])),
        (''90-100%'', Fin (e + countOf (inBucket 90 100) [sr] + countOf isHundred [sr]))] srs"
    by (simp only: foldl_Cons countStudent_default)
  also have "\<dots> =
     [(''0-40%'', Fin (a + countOf (inBucket 0 40) (sr # srs))),
      (''40-60%'', Fin (b + countOf (inBucket 40 60) (sr # srs))),
      (''60-75%'', Fin (c + countOf (inBucket 60 75) (sr # srs))),
      (''75-90%'', Fin (d + countOf (inBucket 75 90) (sr # srs))),
      (''90-100%'', Fin (e + countOf (inBucket 90 100) (sr # srs) + countOf isHundred (sr # srs)))]"
    by (simp only: Cons.IH countOf_Cons [of _ sr srs] add.assoc add.left_commute)
  finally show ?case .
qed

text \<open>
  Claim C8. With the default ranges 0, 40, 60, 75, 90, 100 the distribution has the
  five keys of the contiguous buckets; the count of a bucket is the number of students
  whose percentage is at least its lower bound and below its upper bound, and the top
  bucket 90-100% also counts every student whose percentage is exactly 100.
\<close>

theorem C8_default_distribution:
  "calculateMarksDistribution fmt r defaultRanges =
     [(''0-40%'', Fin (countOf (inBucket 0 40) (getStudentResults r))),
      (''40-60%'', Fin (countOf (inBucket 40 60) (getStudentResults r))),
      (''60-75%'', Fin (countOf (inBucket 60 75) (getStudentResults r))),
      (''75-90%'', Fin (countOf (inBucket 75 90) (getStudentResults r))),
      (''90-100%'', Fin (countOf (inBucket 90 100) (getStudentResults r)
                          + countOf isHundred (getStudentResults r)))]
   \<and> calculateMarksDistribution fmt
        (sampleResult [sampleStudentResult ''Student A'' ''001'' 100,
                       sampleStudentResult ''Student B'' ''002'' 90,
                       sampleStudentResult ''Student C'' ''003'' 40,
                       sampleStudentResult ''Student D'' ''004'' 0]) defaultRanges =
     [(''0-40%'', Fin 1), (''40-60%'', Fin 1), (''60-75%'', Fin 0), (''75-90%'', Fin 0),
      (''90-100%'', Fin 2)]"
proof
  show "calculateMarksDistribution fmt r defaultRanges =
     [(''0-40%'', Fin (countOf (inBucket 0 40) (getStudentResults r))),
      (''40-60%'', Fin (countOf (inBucket 40 60) (getStudentResults r))),
      (''60-75%'', Fin (countOf (inBucket 60 75) (getStudentResults r))),
      (''75-90%'', Fin (countOf (inBucket 75 90) (getStudentResults r))),
      (''90-100%'', Fin (countOf (inBucket 90 100) (getStudentResults r)
                          + countOf isHundred (getStudentResults r)))]"
    using foldl_countStudent_default [of fmt 0 0 0 0 0 "getStudentResults r"]
    by (simp add: calculateMarksDistribution_def initDistribution_default)
  show "calculateMarksDistribution fmt
        (sampleResult [sampleStudentResult ''Student A'' ''001'' 100,
                       sampleStudentResult ''Student B'' ''002'' 90,
                       sampleStudentResult ''Student C'' ''003'' 40,
                       sampleStudentResult ''Student D'' ''004'' 0]) defaultRanges =
     [(''0-40%'', Fin 1), (''40-60%'', Fin 1), (''60-75%'', Fin 0), (''75-90%'', Fin 0),
      (''90-100%'', Fin 2)]"
    by code_simp
qed

section \<open>Properties of the marks transformer\<close>

lemma clamp_range:
  "n \<noteq> NaN \<Longrightarrow> \<exists>q. Math_max (Fin 0) (Math_min (Fin 100) n) = Fin q \<and> 0 \<le> q \<and> q \<le> 100"
  by (cases n) (auto simp: Math_max_def Math_min_def)

lemma clamp_Fin: "Math_max (Fin 0) (Math_min (Fin 100) (Fin x)) = Fin (max 0 (min 100 x))"
  by (auto simp: Math_max_def Math_min_def)

lemma getMarksTransformer_range:
  "\<exists>q. getMarksTransformer fmt v = Fin q \<and> 0 \<le> q \<and> q \<le> 100"
  using clamp_range [of "parseFloat (trim (toLowerCase (ToString fmt v)))"]
  by (auto simp: getMarksTransformer_def Let_def isNaN_def)

lemma parseFloat_words:
  "parseFloat ''absent'' = NaN" "parseFloat ''ab'' = NaN" "parseFloat ''a'' = NaN"
  "parseFloat ''pass'' = NaN" "parseFloat ''p'' = NaN" "parseFloat ''fail'' = NaN"
  "parseFloat ''f'' = NaN" "parseFloat [] = NaN"
  by code_simp+

lemma trim_Nil: "trim [] = []"
  by (simp add: trim_def)

lemma getMarksTransformer_str:
  "getMarksTransformer fmt (VStr s) =
     (let str = trim (toLowerCase s)
      in if str = ''absent'' \<or> str = ''ab'' \<or> str = ''a'' then Fin 0
         else if str = ''pass'' \<or> str = ''p'' then Fin 40
         else if str = ''fail'' \<or> str = ''f'' then Fin 0
         else if isNaN (parseFloat str) then Fin 0
         else Math_max (Fin 0) (Math_min (Fin 100) (parseFloat str)))"
  by (cases "s = []")
     (simp_all add: getMarksTransformer_def Let_def toLowerCase_def trim_Nil parseFloat_words
        isNaN_def)

text \<open>
  Claim C7 as stated fails: the input \<^verbatim>\<open>"p"\<close> is not empty and not numeric, and it
  maps to 40, not 0.
\<close>

theorem C7_pass_letter_counterexample:
  "parseFloat ''p'' = NaN \<and> getMarksTransformer (\<lambda>q. []) (VStr ''p'') = Fin 40"
  by code_simp

text \<open>
  Claim C7, amended. For every input the marks transformer returns a number in
  [0,100]. \<^verbatim>\<open>null\<close>, \<^verbatim>\<open>undefined\<close> and the empty string give 0. For a string, with
  \<open>str\<close> its lower-cased and trimmed form: \<^verbatim>\<open>absent\<close>, \<^verbatim>\<open>ab\<close>, \<^verbatim>\<open>a\<close>, \<^verbatim>\<open>fail\<close> and \<^verbatim>\<open>f\<close>
  give 0; \<^verbatim>\<open>pass\<close> and \<^verbatim>\<open>p\<close> give 40; a \<open>str\<close> that \<^verbatim>\<open>parseFloat\<close> reads as a number
  gives that number clamped into [0,100]; any other \<open>str\<close> gives 0. A finite number
  whose printed form reads back as itself is clamped into [0,100].
\<close>

theorem C7_marks_transformer:
  "(\<exists>q. getMarksTransformer fmt v = Fin q \<and> 0 \<le> q \<and> q \<le> 100)
   \<and> getMarksTransformer fmt VNull = Fin 0
   \<and> getMarksTransformer fmt VUndefined = Fin 0
   \<and> getMarksTransformer fmt (VStr []) = Fin 0
   \<and> (trim (toLowerCase s) \<in> {''absent'', ''ab'', ''a'', ''fail'', ''f''} \<longrightarrow>
        getMarksTransformer fmt (VStr s) = Fin 0)
   \<and> (trim (toLowerCase s) \<in> {''pass'', ''p''} \<longrightarrow> getMarksTransformer fmt (VStr s) = Fin 40)
   \<and> (parseFloat (trim (toLowerCase s)) = Fin x \<longrightarrow>
        getMarksTransformer fmt (VStr s) = Fin (max 0 (min 100 x)))
   \<and> (parseFloat (trim (toLowerCase s)) = NaN \<and> trim (toLowerCase s) \<notin> {''pass'', ''p''} \<longrightarrow>
        getMarksTransformer fmt (VStr s) = Fin 0)
   \<and> (parseFloat (trim (toLowerCase (numberToString fmt (Fin x)))) = Fin x \<longrightarrow>
        getMarksTransformer fmt (VNum (Fin x)) = Fin (max 0 (min 100 x)))"
proof (intro conjI impI)
  show "\<exists>q. getMarksTransformer fmt v = Fin q \<and> 0 \<le> q \<and> q \<le> 100"
    by (rule getMarksTransformer_range)
  show "getMarksTransformer fmt VNull = Fin 0" "getMarksTransformer fmt VUndefined = Fin 0"
    "getMarksTransformer fmt (VStr []) = Fin 0"
    by (simp_all add: getMarksTransformer_def)
next
  assume "trim (toLowerCase s) \<in> {''absent'', ''ab'', ''a'', ''fail'', ''f''}"
  then show "getMarksTransformer fmt (VStr s) = Fin 0"
    by (auto simp: getMarksTransformer_str)
next
  assume "trim (toLowerCase s) \<in> {''pass'', ''p''}"
  then show "getMarksTransformer fmt (VStr s) = Fin 40"
    by (auto simp: getMarksTransformer_str)
next
  assume "parseFloat (trim (toLowerCase s)) = Fin x"
  then show "getMarksTransformer fmt (VStr s) = Fin (max 0 (min 100 x))"
    using parseFloat_words
    by (auto simp: getMarksTransformer_str Let_def isNaN_def clamp_Fin)
next
  assume "parseFloat (trim (toLowerCase s)) = NaN \<and> trim (toLowerCase s) \<notin> {''pass'', ''p''}"
  then show "getMarksTransformer fmt (VStr s) = Fin 0"
    by (auto simp: getMarksTransformer_str Let_def isNaN_def)
next
  assume "parseFloat (trim (toLowerCase (numberToString fmt (Fin x)))) = Fin x"
  then show "getMarksTransformer fmt (VNum (Fin x)) = Fin (max 0 (min 100 x))"
    using parseFloat_words
    by (auto simp: getMarksTransformer_def Let_def isNaN_def clamp_Fin)
qed

theorem C7_marks_transformer_witness:
  "trim (toLowerCase ''  ABSENT '') \<in> {''absent'', ''ab'', ''a'', ''fail'', ''f''}
   \<and> getMarksTransformer (\<lambda>q. []) (VStr ''  ABSENT '') = Fin 0
   \<and> trim (toLowerCase ''Pass'') \<in> {''pass'', ''p''}
   \<and> getMarksTransformer (\<lambda>q. []) (VStr ''Pass'') = Fin 40
   \<and> parseFloat (trim (toLowerCase ''120.5'')) = Fin (241 / 2)
   \<and> getMarksTransformer (\<lambda>q. []) (VStr ''120.5'') = Fin 100
   \<and> parseFloat (trim (toLowerCase ''n/a'')) = NaN
   \<and> trim (toLowerCase ''n/a'') \<notin> {''pass'', ''p''}
   \<and> getMarksTransformer (\<lambda>q. []) (VStr ''n/a'') = Fin 0
   \<and> parseFloat (trim (toLowerCase (numberToString (\<lambda>q. []) (Fin 77)))) = Fin 77
   \<and> getMarksTransformer (\<lambda>q. []) (VNum (Fin 77)) = Fin 77"
proof -
  have a: "trim (toLowerCase ''  ABSENT '') \<in> {''absent'', ''ab'', ''a'', ''fail'', ''f''}"
    by code_simp
  have b: "trim (toLowerCase ''Pass'') \<in> {''pass'', ''p''}" by code_simp
  have c: "parseFloat (trim (toLowerCase ''120.5'')) = Fin (241 / 2)" by code_simp
  have d: "parseFloat (trim (toLowerCase ''n/a'')) = NaN" by code_simp
  have d': "trim (toLowerCase ''n/a'') \<notin> {''pass'', ''p''}" by code_simp
  have e: "parseFloat (trim (toLowerCase (numberToString (\<lambda>q. []) (Fin 77)))) = Fin 77"
    by code_simp
  note t = C7_marks_transformer [where fmt = "\<lambda>q. []"]
  have "getMarksTransformer (\<lambda>q. []) (VStr ''  ABSENT '') = Fin 0"
    using t [where s = "''  ABSENT ''"] a by blast
  moreover have "getMarksTransformer (\<lambda>q. []) (VStr ''Pass'') = Fin 40"
    using t [where s = "''Pass''"] b by blast
  moreover have "getMarksTransformer (\<lambda>q. []) (VStr ''120.5'') = Fin 100"
    using t [where s = "''120.5''" and x = "241 / 2"] c by simp
  moreover have "getMarksTransformer (\<lambda>q. []) (VStr ''n/a'') = Fin 0"
    using t [where s = "''n/a''"] d d' by blast
  moreover have "getMarksTransformer (\<lambda>q. []) (VNum (Fin 77)) = Fin 77"
    using t [where x = 77] e by simp
  ultimately show ?thesis using a b c d d' e by blast
qed

section \<open>Properties of the validation service\<close>

































text \<open>
  Claim C4 fails on the code. For a row whose positive marks average below 10 (or
  above 95) the marks-consistency validator answers with \<^verbatim>\<open>isValid: true\<close> and a
  message, and \<^verbatim>\<open>validateRow\<close> records a result only when it is not valid: no warning
  is recorded. The only issue that the rule can ever add is the warning that a row
  has no valid marks.
\<close>

theorem C4_average_warning_not_recorded:
  "validator marks_consistency (readField lowMarksRow ''marks'') lowMarksRow [lowMarksRow] =
     Inr \<lparr>v_isValid = True, v_message = Some ''Very low average marks - please verify data''\<rparr>
   \<and> validateRow lowMarksRow 0 (DEFAULT_RULES fmt) [lowMarksRow] =
       \<lparr>rowIndex = 0, row_isValid = True, errors = [], warnings = []\<rparr>
   \<and> validator marks_consistency (readField highMarksRow ''marks'') highMarksRow [highMarksRow] =
       Inr \<lparr>v_isValid = True, v_message = Some ''Very high average marks - please verify data''\<rparr>
   \<and> validateRow highMarksRow 0 (DEFAULT_RULES fmt) [highMarksRow] =
       \<lparr>rowIndex = 0, row_isValid = True, errors = [], warnings = []\<rparr>
   \<and> applyRule row allRows acc marks_consistency \<in>
       {acc,
        (fst acc, snd acc @ [\<lparr>issue_field = ''marks'', issue_rule = ''marks_consistency'',
                               issue_message = ''Student has no valid marks in any subject''\<rparr>])}"
proof (intro conjI)
  show "validator marks_consistency (readField lowMarksRow ''marks'') lowMarksRow [lowMarksRow] =
     Inr \<lparr>v_isValid = True, v_message = Some ''Very low average marks - please verify data''\<rparr>"
    by code_simp
  show "validateRow lowMarksRow 0 (DEFAULT_RULES fmt) [lowMarksRow] =
       \<lparr>rowIndex = 0, row_isValid = True, errors = [], warnings = []\<rparr>"
    by code_simp
  show "validator marks_consistency (readField highMarksRow ''marks'') highMarksRow [highMarksRow] =
       Inr \<lparr>v_isValid = True, v_message = Some ''Very high average marks - please verify data''\<rparr>"
    by code_simp
  show "validateRow highMarksRow 0 (DEFAULT_RULES fmt) [highMarksRow] =
       \<lparr>rowIndex = 0, row_isValid = True, errors = [], warnings = []\<rparr>"
    by code_simp
  show "applyRule row allRows acc marks_consistency \<in>
       {acc,
        (fst acc, snd acc @ [\<lparr>issue_field = ''marks'', issue_rule = ''marks_consistency'',
                               issue_message = ''Student has no valid marks in any subject''\<rparr>])}"
    by (cases "row_marks row")
       (simp_all add: applyRule_def marks_consistency_def valid_def Let_def)
qed

end
